theory Spec2Isabelle
  imports Main "HOL-Library.Word" "HOL-Library.Char_ord" "HOL-Library.List_Lexorder"
begin

section \<open>Host values\<close>

text \<open>
  The Starlark evaluator is an external collaborator.  The repository's code sees a host
  value only through the methods of the interface \<^verbatim>\<open>starlark.Value\<close> (\<^verbatim>\<open>Type\<close>,
  \<^verbatim>\<open>Hash\<close>, \<^verbatim>\<open>String\<close>), through \<^verbatim>\<open>starlark.Equal\<close> and through Go type switches.
  The record below carries exactly these observations for an arbitrary element type, so
  that every function over values is parametric in the evaluator.

  \<^item> \<open>Hash_of\<close> is \<open>None\<close> where \<^verbatim>\<open>Hash()\<close> returns an error (unhashable value).
  \<^item> \<open>Runes_of\<close> is the sequence of code points of \<^verbatim>\<open>String()\<close>, which is what a Go
    \<^verbatim>\<open>for _, c := range s\<close> loop iterates over.
  \<^item> \<open>Equal_of v w\<close> is the Boolean result of \<^verbatim>\<open>starlark.Equal(v, w)\<close>; where that call
    returns an error the Boolean is \<open>False\<close>, and the callers modelled here drop the error.
\<close>

datatype GoKind =
  GoNone | GoBool | GoInt | GoString | GoList | GoTuple | GoDict | GoLabel | GoOther

record 'a value_ops =
  Kind_of :: "'a \<Rightarrow> GoKind"
  Type_of :: "'a \<Rightarrow> string"
  Hash_of :: "'a \<Rightarrow> 32 word option"
  Runes_of :: "'a \<Rightarrow> nat list"
  Equal_of :: "'a \<Rightarrow> 'a \<Rightarrow> bool"
  Str_of :: "'a \<Rightarrow> string"
  Elems_of :: "'a \<Rightarrow> 'a list"
  Items_of :: "'a \<Rightarrow> ('a \<times> 'a) list"
  Callable_of :: "'a \<Rightarrow> ('a list \<Rightarrow> (string \<times> 'a) list \<Rightarrow> string + 'a) option"
  NoneVal :: "'a"
  MkBool :: "bool \<Rightarrow> 'a"
  MkInt :: "int \<Rightarrow> 'a"
  MkString :: "string \<Rightarrow> 'a"
  MkList :: "'a list \<Rightarrow> 'a"

text \<open>
  \<^item> \<open>Kind_of\<close> is the dynamic Go type as far as the type switches of the repository
    distinguish it; \<open>Str_of\<close>, \<open>Elems_of\<close> and \<open>Items_of\<close> read the payload of a
    string, of a list or tuple, and of a dictionary (in insertion order), and are consulted
    only after the corresponding type assertion.
  \<^item> \<open>Callable_of\<close> is \<open>None\<close> for a value that is not a \<^verbatim>\<open>starlark.Callable\<close>;
    otherwise it is the effect of \<^verbatim>\<open>starlark.Call\<close> on positional and keyword arguments,
    returning an error message or a value.
  \<^item> \<open>NoneVal\<close>, \<open>MkBool\<close>, \<open>MkInt\<close>, \<open>MkString\<close> and \<open>MkList\<close> build the host's
    \<^verbatim>\<open>None\<close>, Booleans, integers, strings and lists.

  A small concrete universe of host values, used to run the model on literal inputs.
  Equality is structural.  The integer hash is the host's hash of a small integer; lists
  and dictionaries are unhashable.  \<open>SConstFn v\<close> is a function that ignores its arguments
  and returns \<open>v\<close>.
\<close>

datatype sval =
    SNone | SBool bool | SInt int | SStr string
  | SList "sval list" | STuple "sval list" | SDict "(sval \<times> sval) list"
  | SConstFn sval

fun sval_kind :: "sval \<Rightarrow> GoKind" where
  "sval_kind SNone = GoNone"
| "sval_kind (SBool _) = GoBool"
| "sval_kind (SInt _) = GoInt"
| "sval_kind (SStr _) = GoString"
| "sval_kind (SList _) = GoList"
| "sval_kind (STuple _) = GoTuple"
| "sval_kind (SDict _) = GoDict"
| "sval_kind (SConstFn _) = GoOther"

fun sval_type :: "sval \<Rightarrow> string" where
  "sval_type SNone = ''NoneType''"
| "sval_type (SBool _) = ''bool''"
| "sval_type (SInt _) = ''int''"
| "sval_type (SStr _) = ''string''"
| "sval_type (SList _) = ''list''"
| "sval_type (STuple _) = ''tuple''"
| "sval_type (SDict _) = ''dict''"
| "sval_type (SConstFn _) = ''function''"

fun sval_hash :: "sval \<Rightarrow> 32 word option" where
  "sval_hash (SInt i) = Some (12582917 * word_of_int (i + 3))"
| "sval_hash (SStr s) = Some (foldl (\<lambda>h c. h * 16777619 + of_nat (of_char c)) 2166136261 s)"
| "sval_hash (SBool b) = Some (if b then 1 else 0)"
| "sval_hash SNone = Some 0"
| "sval_hash _ = None"

fun sval_runes :: "sval \<Rightarrow> nat list" where
  "sval_runes (SStr s) = map of_char s"
| "sval_runes _ = []"

fun sval_str :: "sval \<Rightarrow> string" where
  "sval_str (SStr s) = s"
| "sval_str _ = []"

fun sval_elems :: "sval \<Rightarrow> sval list" where
  "sval_elems (SList xs) = xs"
| "sval_elems (STuple xs) = xs"
| "sval_elems _ = []"

fun sval_items :: "sval \<Rightarrow> (sval \<times> sval) list" where
  "sval_items (SDict kvs) = kvs"
| "sval_items _ = []"

fun sval_callable ::
  "sval \<Rightarrow> (sval list \<Rightarrow> (string \<times> sval) list \<Rightarrow> string + sval) option" where
  "sval_callable (SConstFn v) = Some (\<lambda>args kwargs. Inr v)"
| "sval_callable _ = None"

definition sval_ops :: "sval value_ops" where
  "sval_ops = \<lparr> Kind_of = sval_kind, Type_of = sval_type, Hash_of = sval_hash,
                Runes_of = sval_runes, Equal_of = (=), Str_of = sval_str,
                Elems_of = sval_elems, Items_of = sval_items, Callable_of = sval_callable,
                NoneVal = SNone, MkBool = SBool, MkInt = SInt, MkString = SStr,
                MkList = SList \<rparr>"

section \<open>Depset\<close>

subsection \<open>Order\<close>

datatype Order = OrderDefault | OrderPostorder | OrderPreorder | OrderTopological

fun Order_String :: "Order \<Rightarrow> string" where
  "Order_String OrderDefault = ''default''"
| "Order_String OrderPostorder = ''postorder''"
| "Order_String OrderPreorder = ''preorder''"
| "Order_String OrderTopological = ''topological''"

definition IsCompatible :: "Order \<Rightarrow> Order \<Rightarrow> bool" where
  "IsCompatible o1 other = (o1 = other \<or> o1 = OrderDefault \<or> other = OrderDefault)"

subsection \<open>Construction\<close>

text \<open>
  \<^verbatim>\<open>Depset\<close> holds the order, the direct elements, the transitive children and the element
  type name (empty for an empty depset).  Children are pointers in the source; traversal
  never compares nodes, only elements, so a child is modelled by its value.
\<close>

datatype 'a Depset =
  Depset (order: Order) (direct: "'a list") (transitive: "'a Depset list") (elemType: string)

text \<open>The errors \<^verbatim>\<open>NewDepset\<close> returns; each carries the data its message prints.\<close>

datatype depset_error =
    ForbiddenItem string  \<comment> \<open>depsets cannot contain items of type '<kind>'\<close>
  | TypeMismatch string string  \<comment> \<open>cannot add an item of type '<t>' to a depset of '<u>'\<close>
  | OrderIncompatible Order Order  \<comment> \<open>Order '<o>' is incompatible with order '<p>'\<close>

fun isEmpty :: "'a Depset \<Rightarrow> bool" where
  "isEmpty (Depset ord d ts et) = (if length d > 0 then False else list_all isEmpty ts)"

text \<open>\<^verbatim>\<open>checkAndSetType\<close>: takes the current element type, returns the updated one.\<close>

definition checkAndSetType :: "'a value_ops \<Rightarrow> string \<Rightarrow> 'a \<Rightarrow> depset_error + string" where
  "checkAndSetType ops et elem =
     (case Kind_of ops elem of
        GoList \<Rightarrow> Inl (ForbiddenItem ''list'')
      | GoDict \<Rightarrow> Inl (ForbiddenItem ''dict'')
      | _ \<Rightarrow>
          (let t = Type_of ops elem in
           if et = [] then Inr t
           else if et \<noteq> t then Inl (TypeMismatch t et)
           else Inr et))"

text \<open>The first loop of \<^verbatim>\<open>NewDepset\<close>, over the direct elements.\<close>

fun checkDirect :: "'a value_ops \<Rightarrow> string \<Rightarrow> 'a list \<Rightarrow> depset_error + string" where
  "checkDirect ops et [] = Inr et"
| "checkDirect ops et (e # es) =
     (case checkAndSetType ops et e of
        Inl err \<Rightarrow> Inl err
      | Inr et' \<Rightarrow> checkDirect ops et' es)"

text \<open>The second loop of \<^verbatim>\<open>NewDepset\<close>, over the transitive children.\<close>

fun checkTransitive :: "Order \<Rightarrow> string \<Rightarrow> 'a Depset list \<Rightarrow> depset_error + string" where
  "checkTransitive ord et [] = Inr et"
| "checkTransitive ord et (t # ts) =
     (if \<not> isEmpty t then
        (if \<not> IsCompatible ord (order t) then Inl (OrderIncompatible ord (order t))
         else if et = [] then checkTransitive ord (elemType t) ts
         else if elemType t \<noteq> [] \<and> et \<noteq> elemType t then Inl (TypeMismatch (elemType t) et)
         else checkTransitive ord et ts)
      else checkTransitive ord et ts)"

definition NewDepset ::
  "'a value_ops \<Rightarrow> Order \<Rightarrow> 'a list \<Rightarrow> 'a Depset list \<Rightarrow> depset_error + 'a Depset" where
  "NewDepset ops ord ds ts =
     (case checkDirect ops [] ds of
        Inl err \<Rightarrow> Inl err
      | Inr et \<Rightarrow>
          (case checkTransitive ord et ts of
             Inl err \<Rightarrow> Inl err
           | Inr et' \<Rightarrow> Inr (Depset ord ds ts et')))"

subsection \<open>Flattening\<close>

text \<open>
  \<^verbatim>\<open>hashString\<close>: the fallback hash of an unhashable element, over the code points of
  its rendered string; the arithmetic is on \<^verbatim>\<open>uint32\<close> and wraps.
\<close>

fun hashString_from :: "32 word \<Rightarrow> nat list \<Rightarrow> 32 word" where
  "hashString_from h [] = h"
| "hashString_from h (c # cs) = hashString_from (h * 31 + of_nat c) cs"

definition hashString :: "nat list \<Rightarrow> 32 word" where
  "hashString s = hashString_from 0 s"

text \<open>The bucket key \<^verbatim>\<open>alreadySeen\<close> computes for an element.\<close>

definition elemKey :: "'a value_ops \<Rightarrow> 'a \<Rightarrow> 32 word" where
  "elemKey ops elem =
     (case Hash_of ops elem of
        Some h \<Rightarrow> h
      | None \<Rightarrow> hashString (Runes_of ops elem))"

text \<open>
  The traversal state: the map \<^verbatim>\<open>seen\<close> from hash to the values with that hash (a
  missing key reads as the empty slice) and the \<^verbatim>\<open>result\<close> slice.
\<close>

type_synonym 'a walk_state = "(32 word \<Rightarrow> 'a list) \<times> 'a list"

definition alreadySeen ::
  "'a value_ops \<Rightarrow> (32 word \<Rightarrow> 'a list) \<Rightarrow> 'a \<Rightarrow> bool \<times> (32 word \<Rightarrow> 'a list)" where
  "alreadySeen ops seen elem =
     (let h = elemKey ops elem in
      if list_ex (\<lambda>v. Equal_of ops v elem) (seen h) then (True, seen)
      else (False, seen(h := seen h @ [elem])))"

fun addDirect :: "'a value_ops \<Rightarrow> 'a list \<Rightarrow> 'a walk_state \<Rightarrow> 'a walk_state" where
  "addDirect ops [] st = st"
| "addDirect ops (elem # es) (seen, result) =
     (case alreadySeen ops seen elem of
        (True, seen') \<Rightarrow> addDirect ops es (seen', result)
      | (False, seen') \<Rightarrow> addDirect ops es (seen', result @ [elem]))"

text \<open>
  \<^verbatim>\<open>walk\<close> and \<^verbatim>\<open>addTransitive\<close>.  The order passed down is the order of the depset
  \<^verbatim>\<open>ToList\<close> was called on, not the order of the child being walked.
\<close>

fun walk :: "'a value_ops \<Rightarrow> Order \<Rightarrow> 'a Depset \<Rightarrow> 'a walk_state \<Rightarrow> 'a walk_state"
  and addTransitive ::
    "'a value_ops \<Rightarrow> Order \<Rightarrow> 'a Depset list \<Rightarrow> 'a walk_state \<Rightarrow> 'a walk_state" where
  "walk ops ord (Depset o' d ts et) st =
     (if ord = OrderPreorder then addTransitive ops ord ts (addDirect ops d st)
      else addDirect ops d (addTransitive ops ord ts st))"
| "addTransitive ops ord [] st = st"
| "addTransitive ops ord (t # ts) st = addTransitive ops ord ts (walk ops ord t st)"

text \<open>
  The in-place reversal loop of \<^verbatim>\<open>ToList\<close>:
  \<^verbatim>\<open>for i, j := 0, len(result)-1; i < j; i, j = i+1, j-1 { swap }\<close>.
  The indices are integers, since \<^verbatim>\<open>j\<close> starts at \<open>-1\<close> on the empty slice.
\<close>

function reverse_loop :: "int \<Rightarrow> int \<Rightarrow> 'a list \<Rightarrow> 'a list" where
  "reverse_loop i j xs =
     (if i < j \<and> 0 \<le> i then
        reverse_loop (i + 1) (j - 1) (xs[nat i := xs ! nat j, nat j := xs ! nat i])
      else xs)"
  by pat_completeness auto
termination
  by (relation "measure (\<lambda>(i, j, xs). nat (j - i))") auto

definition ToList :: "'a value_ops \<Rightarrow> 'a Depset \<Rightarrow> 'a list" where
  "ToList ops d =
     (let (seen, result) = walk ops (order d) d (\<lambda>h. [], []) in
      if order d = OrderTopological then reverse_loop 0 (int (length result) - 1) result
      else result)"

subsection \<open>Specification of flattening\<close>

text \<open>
  The traversal sequence before deduplication, following the specification's words: for
  \<open>preorder\<close> the direct elements left to right, then the children left to right; for
  every other order the children left to right, then the direct elements.
\<close>

fun flatten :: "Order \<Rightarrow> 'a Depset \<Rightarrow> 'a list" where
  "flatten ord (Depset o' d ts et) =
     (if ord = OrderPreorder then d @ concat (map (flatten ord) ts)
      else concat (map (flatten ord) ts) @ d)"

text \<open>
  Global deduplication, first appearance wins: an element is dropped when an element kept
  before it has the same bucket key and is equal to it.
\<close>

fun dedup_onto :: "'a value_ops \<Rightarrow> 'a list \<Rightarrow> 'a list \<Rightarrow> 'a list" where
  "dedup_onto ops acc [] = acc"
| "dedup_onto ops acc (x # xs) =
     (if list_ex (\<lambda>v. elemKey ops v = elemKey ops x \<and> Equal_of ops v x) acc
      then dedup_onto ops acc xs
      else dedup_onto ops (acc @ [x]) xs)"

definition first_wins :: "'a value_ops \<Rightarrow> 'a list \<Rightarrow> 'a list" where
  "first_wins ops xs = dedup_onto ops [] xs"

text \<open>The invariant of the traversal state: each bucket holds the results with its key.\<close>

definition seen_inv :: "'a value_ops \<Rightarrow> 'a walk_state \<Rightarrow> bool" where
  "seen_inv ops st = (\<forall>h. fst st h = filter (\<lambda>v. elemKey ops v = h) (snd st))"

text \<open>The depsets of the specification's scenario: \<open>A = depset([1,2])\<close> and
  \<open>B = depset([2,3], transitive=[A], order="postorder")\<close>.\<close>

definition depsetA :: "sval Depset" where
  "depsetA = Depset OrderDefault [SInt 1, SInt 2] [] ''int''"

definition depsetB :: "sval Depset" where
  "depsetB = Depset OrderPostorder [SInt 2, SInt 3] [depsetA] ''int''"

section \<open>Providers\<close>

text \<open>
  \<^verbatim>\<open>types.Provider\<close>: the name, the declared field list (\<^verbatim>\<open>nil\<close> and the empty
  slice are both the empty list), the documentation, the optional \<^verbatim>\<open>init\<close> callback
  and the frozen flag.
\<close>

record 'a Provider =
  p_name :: string
  p_fields :: "string list"
  p_doc :: string
  p_init :: "('a list \<Rightarrow> (string \<times> 'a) list \<Rightarrow> string + 'a) option"
  p_frozen :: bool

definition NewProvider ::
  "string \<Rightarrow> string list \<Rightarrow> string \<Rightarrow>
   ('a list \<Rightarrow> (string \<times> 'a) list \<Rightarrow> string + 'a) option \<Rightarrow> 'a Provider" where
  "NewProvider name flds doc init =
     \<lparr> p_name = name, p_fields = flds, p_doc = doc, p_init = init, p_frozen = False \<rparr>"

record 'a ProviderInstance =
  pi_provider :: "'a Provider"
  pi_values :: "string \<rightharpoonup> 'a"
  pi_frozen :: bool

definition NewProviderInstance :: "'a Provider \<Rightarrow> (string \<rightharpoonup> 'a) \<Rightarrow> 'a ProviderInstance" where
  "NewProviderInstance p vals = \<lparr> pi_provider = p, pi_values = vals, pi_frozen = False \<rparr>"

text \<open>The errors of a provider call; each carries the data its message prints.\<close>

datatype provider_error =
    InitFailed string  \<comment> \<open>the error returned by the init callback\<close>
  | InitNotDict string string  \<comment> \<open><name>: init must return a dict, got <type>\<close>
  | InitNonStringKey string string  \<comment> \<open><name>: init returned dict with non-string key: <type>\<close>
  | UnexpectedField string string  \<comment> \<open><name>: unexpected field "<key>"\<close>
  | UnexpectedPositional string  \<comment> \<open><name>: unexpected positional arguments\<close>

text \<open>The loop of \<^verbatim>\<open>Provider.CallInternal\<close> over the items of the dict returned by init.\<close>

fun collectInitItems ::
  "'a value_ops \<Rightarrow> 'a Provider \<Rightarrow> ('a \<times> 'a) list \<Rightarrow> (string \<rightharpoonup> 'a) \<Rightarrow>
   provider_error + (string \<rightharpoonup> 'a)" where
  "collectInitItems ops p [] vals = Inr vals"
| "collectInitItems ops p ((k, v) # items) vals =
     (if Kind_of ops k \<noteq> GoString then Inl (InitNonStringKey (p_name p) (Type_of ops k))
      else
        (let keyStr = Str_of ops k in
         if length (p_fields p) > 0 \<and> keyStr \<notin> set (p_fields p)
         then Inl (UnexpectedField (p_name p) keyStr)
         else collectInitItems ops p items (vals(keyStr \<mapsto> v))))"

text \<open>The loop over the keyword arguments, shared in shape by \<^verbatim>\<open>Provider.CallInternal\<close>
  and \<^verbatim>\<open>rawProviderConstructor.CallInternal\<close>; the first argument is the provider's name
  as the error prints it, the second the field list consulted.\<close>

fun collectKwargs ::
  "string \<Rightarrow> string list \<Rightarrow> (string \<times> 'a) list \<Rightarrow> (string \<rightharpoonup> 'a) \<Rightarrow>
   provider_error + (string \<rightharpoonup> 'a)" where
  "collectKwargs pname flds [] vals = Inr vals"
| "collectKwargs pname flds ((key, v) # kwargs) vals =
     (if length flds > 0 \<and> key \<notin> set flds then Inl (UnexpectedField pname key)
      else collectKwargs pname flds kwargs (vals(key \<mapsto> v)))"

definition Provider_CallInternal ::
  "'a value_ops \<Rightarrow> 'a Provider \<Rightarrow> 'a list \<Rightarrow> (string \<times> 'a) list \<Rightarrow>
   provider_error + 'a ProviderInstance" where
  "Provider_CallInternal ops p args kwargs =
     (case p_init p of
        Some init \<Rightarrow>
          (case init args kwargs of
             Inl err \<Rightarrow> Inl (InitFailed err)
           | Inr result \<Rightarrow>
               if Kind_of ops result \<noteq> GoDict
               then Inl (InitNotDict (p_name p) (Type_of ops result))
               else
                 (case collectInitItems ops p (Items_of ops result) Map.empty of
                    Inl err \<Rightarrow> Inl err
                  | Inr vals \<Rightarrow> Inr \<lparr> pi_provider = p, pi_values = vals, pi_frozen = False \<rparr>))
      | None \<Rightarrow>
          if length args > 0 then Inl (UnexpectedPositional (p_name p))
          else
            (case collectKwargs (p_name p) (p_fields p) kwargs Map.empty of
               Inl err \<Rightarrow> Inl err
             | Inr vals \<Rightarrow> Inr \<lparr> pi_provider = p, pi_values = vals, pi_frozen = False \<rparr>))"

text \<open>\<^verbatim>\<open>rawProviderConstructor\<close> (package builtins) holds the provider only.\<close>

record 'a rawProviderConstructor =
  raw_provider :: "'a Provider"

definition raw_CallInternal ::
  "'a rawProviderConstructor \<Rightarrow> 'a list \<Rightarrow> (string \<times> 'a) list \<Rightarrow>
   provider_error + 'a ProviderInstance" where
  "raw_CallInternal r args kwargs =
     (if length args > 0 then Inl (UnexpectedPositional (p_name (raw_provider r)))
      else
        (case collectKwargs (p_name (raw_provider r)) (p_fields (raw_provider r)) kwargs Map.empty of
           Inl err \<Rightarrow> Inl err
         | Inr vals \<Rightarrow> Inr (NewProviderInstance (raw_provider r) vals)))"

subsection \<open>The two \<open>provider\<close> builtins\<close>

text \<open>
  What a \<open>provider(...)\<close> expression evaluates to: a provider, or the tuple of a
  provider and its raw constructor.
\<close>

datatype 'a provider_value =
    ProviderVal "'a Provider"
  | ProviderPair "'a Provider" "'a rawProviderConstructor"

datatype builtin_error =
    DocNotString string  \<comment> \<open>provider: doc must be a string, got <type>\<close>
  | FieldNotString string  \<comment> \<open>provider: fields ... must contain strings, got <type>\<close>
  | FieldDictKeyNotString string
  | FieldDictValueNotString string
  | FieldsBadType string  \<comment> \<open>provider: fields must be a list or dict, got <type>\<close>
  | InitNotCallable string  \<comment> \<open>provider: init must be callable, got <type>\<close>

fun stringsOf :: "'a value_ops \<Rightarrow> 'a list \<Rightarrow> string list \<Rightarrow> builtin_error + string list" where
  "stringsOf ops [] acc = Inr acc"
| "stringsOf ops (x # xs) acc =
     (if Kind_of ops x \<noteq> GoString then Inl (FieldNotString (Type_of ops x))
      else stringsOf ops xs (acc @ [Str_of ops x]))"

fun fieldDictKeys ::
  "'a value_ops \<Rightarrow> ('a \<times> 'a) list \<Rightarrow> string list \<Rightarrow> builtin_error + string list" where
  "fieldDictKeys ops [] acc = Inr acc"
| "fieldDictKeys ops ((k, v) # items) acc =
     (if Kind_of ops k \<noteq> GoString then Inl (FieldDictKeyNotString (Type_of ops k))
      else if Kind_of ops v \<noteq> GoString then Inl (FieldDictValueNotString (Type_of ops v))
      else fieldDictKeys ops items (acc @ [Str_of ops k]))"

text \<open>
  \<^verbatim>\<open>builtins.Provider\<close>, after \<^verbatim>\<open>UnpackArgs\<close> has bound the three optional parameters
  (each defaults to the host's \<^verbatim>\<open>None\<close>).
\<close>

definition builtins_Provider ::
  "'a value_ops \<Rightarrow> 'a \<Rightarrow> 'a \<Rightarrow> 'a \<Rightarrow> builtin_error + 'a provider_value" where
  "builtins_Provider ops doc flds init =
     (case (if Kind_of ops doc = GoNone then Inr []
            else if Kind_of ops doc \<noteq> GoString then Inl (DocNotString (Type_of ops doc))
            else Inr (Str_of ops doc)) of
        Inl err \<Rightarrow> Inl err
      | Inr docStr \<Rightarrow>
          (case (if Kind_of ops flds = GoNone then Inr []
                 else
                   (case Kind_of ops flds of
                      GoList \<Rightarrow> stringsOf ops (Elems_of ops flds) []
                    | GoTuple \<Rightarrow> stringsOf ops (Elems_of ops flds) []
                    | GoDict \<Rightarrow> fieldDictKeys ops (Items_of ops flds) []
                    | _ \<Rightarrow> Inl (FieldsBadType (Type_of ops flds)))) of
             Inl err \<Rightarrow> Inl err
           | Inr fieldList \<Rightarrow>
               (case (if Kind_of ops init = GoNone then Inr None
                      else
                        (case Callable_of ops init of
                           None \<Rightarrow> Inl (InitNotCallable (Type_of ops init))
                         | Some fn \<Rightarrow> Inr (Some fn))) of
                  Inl err \<Rightarrow> Inl err
                | Inr initFn \<Rightarrow>
                    (let provider = NewProvider [] fieldList docStr initFn in
                     if initFn \<noteq> None
                     then Inr (ProviderPair provider \<lparr> raw_provider = provider \<rparr>)
                     else Inr (ProviderVal provider)))))"

text \<open>
  \<^verbatim>\<open>providerBuiltin\<close> of package eval, the function the evaluator predeclares as
  \<open>provider\<close>.  \<^verbatim>\<open>UnpackArgs\<close> binds typed variables here: a string, a list pointer
  (\<open>None\<close> for the nil pointer) and a callable (\<open>None\<close> for nil).
\<close>

definition providerBuiltin ::
  "'a value_ops \<Rightarrow> string \<Rightarrow> 'a list option \<Rightarrow>
   ('a list \<Rightarrow> (string \<times> 'a) list \<Rightarrow> string + 'a) option \<Rightarrow>
   builtin_error + 'a provider_value" where
  "providerBuiltin ops doc flds init =
     (case (case flds of
              None \<Rightarrow> Inr []
            | Some elems \<Rightarrow> stringsOf ops elems []) of
        Inl err \<Rightarrow> Inl err
      | Inr fieldNames \<Rightarrow> Inr (ProviderVal (NewProvider [] fieldNames doc init)))"

text \<open>Inputs of the specification's provider scenario and of the examples below.\<close>

definition MyInfo :: "sval Provider" where
  "MyInfo = NewProvider [] [''x'', ''y''] [] None"

definition NoFields :: "sval Provider" where
  "NoFields = NewProvider [] [] [] None"

definition initFixed :: "sval list \<Rightarrow> (string \<times> sval) list \<Rightarrow> string + sval" where
  "initFixed args kwargs = Inr (SDict [(SStr ''x'', SInt 1)])"

definition MyInfoInit :: "sval Provider" where
  "MyInfoInit = NewProvider [] [''x'', ''y''] [] (Some initFixed)"

section \<open>Strings\<close>

text \<open>
  The functions of Go's \<^verbatim>\<open>strings\<close> package the repository calls, on byte strings.
  \<open>Index\<close> and \<open>LastIndex\<close> return \<open>None\<close> where Go returns \<open>-1\<close>.
\<close>

definition HasPrefix :: "string \<Rightarrow> string \<Rightarrow> bool" where
  "HasPrefix s pre = (take (length pre) s = pre)"

definition HasSuffix :: "string \<Rightarrow> string \<Rightarrow> bool" where
  "HasSuffix s suf = (length suf \<le> length s \<and> drop (length s - length suf) s = suf)"

fun Index :: "string \<Rightarrow> string \<Rightarrow> nat option" where
  "Index [] sep = (if sep = [] then Some 0 else None)"
| "Index (c # cs) sep =
     (if HasPrefix (c # cs) sep then Some 0 else map_option Suc (Index cs sep))"

fun LastIndex :: "string \<Rightarrow> string \<Rightarrow> nat option" where
  "LastIndex [] sep = (if sep = [] then Some 0 else None)"
| "LastIndex (c # cs) sep =
     (case LastIndex cs sep of
        Some i \<Rightarrow> Some (Suc i)
      | None \<Rightarrow> if HasPrefix (c # cs) sep then Some 0 else None)"


text \<open>The segments of a slash-separated path.\<close>

fun splitSlash :: "string \<Rightarrow> string list" where
  "splitSlash [] = [[]]"
| "splitSlash (c # cs) =
     (if c = CHR ''/'' then [] # splitSlash cs
      else (case splitSlash cs of
              w # ws \<Rightarrow> (c # w) # ws
            | [] \<Rightarrow> [[c]]))"

text \<open>\<open>joinWith sep xs\<close> is Go's \<^verbatim>\<open>strings.Join(xs, sep)\<close>.\<close>

fun joinWith :: "string \<Rightarrow> string list \<Rightarrow> string" where
  "joinWith sep [] = []"
| "joinWith sep [x] = x"
| "joinWith sep (x # y # ys) = x @ sep @ joinWith sep (y # ys)"

section \<open>Labels\<close>

record Label =
  l_repo :: string
  l_pkg :: string
  l_name :: string
  l_frozen :: bool

datatype label_error =
    MissingSlashes string  \<comment> \<open>invalid label "<s>": missing //\<close>
  | MustStartWithSlashes string  \<comment> \<open>invalid label "<s>": must start with // or @\<close>

definition ParseLabel :: "string \<Rightarrow> label_error + Label" where
  "ParseLabel s0 =
     (case (if HasPrefix s0 ''@'' then
              (case Index s0 ''//'' of
                 None \<Rightarrow> Inl (MissingSlashes s0)
               | Some idx \<Rightarrow> Inr (take (idx - 1) (drop 1 s0), drop idx s0))
            else Inr ([], s0)) of
        Inl err \<Rightarrow> Inl err
      | Inr (repo, s1) \<Rightarrow>
          if \<not> HasPrefix s1 ''//'' then Inl (MustStartWithSlashes s1)
          else
            (let s2 = drop 2 s1 in
             case LastIndex s2 '':'' of
               Some idx \<Rightarrow>
                 Inr \<lparr> l_repo = repo, l_pkg = take idx s2, l_name = drop (idx + 1) s2,
                       l_frozen = False \<rparr>
             | None \<Rightarrow>
                 Inr \<lparr> l_repo = repo, l_pkg = s2,
                       l_name = (case LastIndex s2 ''/'' of
                                   Some idx \<Rightarrow> drop (idx + 1) s2
                                 | None \<Rightarrow> s2),
                       l_frozen = False \<rparr>))"

definition Label_String :: "Label \<Rightarrow> string" where
  "Label_String l =
     (if l_repo l \<noteq> [] then ''@'' @ l_repo l else []) @ ''//'' @ l_pkg l @ '':'' @ l_name l"

definition ParseLabelRelative :: "string \<Rightarrow> string \<Rightarrow> string \<Rightarrow> label_error + Label" where
  "ParseLabelRelative s currentRepo currentPkg =
     (if HasPrefix s ''@'' then ParseLabel s
      else if HasPrefix s ''//'' then
        (case ParseLabel s of
           Inl err \<Rightarrow> Inl err
         | Inr l \<Rightarrow> Inr (if l_repo l = [] then l\<lparr> l_repo := currentRepo \<rparr> else l))
      else if HasPrefix s '':'' then
        Inr \<lparr> l_repo = currentRepo, l_pkg = currentPkg, l_name = drop 1 s, l_frozen = False \<rparr>
      else
        Inr \<lparr> l_repo = currentRepo, l_pkg = currentPkg, l_name = s, l_frozen = False \<rparr>)"

section \<open>The module loader\<close>

text \<open>
  The errors of \<^verbatim>\<open>BzlFileLoader.Load\<close>.  \<open>CycleError\<close> is the struct of the source with
  its fields \<^verbatim>\<open>Module\<close> and \<^verbatim>\<open>Stack\<close>; the wrapping constructors stand for
  \<^verbatim>\<open>fmt.Errorf("...: %w", err)\<close>.
\<close>

datatype load_error =
    InvalidLabelMissingSlashes string  \<comment> \<open>invalid label "<module>": missing //\<close>
  | InvalidLabelMissingColon string  \<comment> \<open>invalid label: missing colon in "<s>"\<close>
  | BadExtension string  \<comment> \<open>file must have .bzl or .scl extension, got "<file>"\<close>
  | UnknownRepository string  \<comment> \<open>unknown repository "<repo>"\<close>
  | LoadWrapped string load_error  \<comment> \<open>load("<module>"): <err>\<close>
  | CycleError string "string list"  \<comment> \<open>Module, Stack\<close>
  | ReadFailed string string  \<comment> \<open>reading <path>: <err>\<close>
  | ExecFailed string load_error  \<comment> \<open>executing <label>: <err>\<close>
  | HostLoadFailed string load_error  \<comment> \<open>the host's failure of a load statement\<close>
  | HostError string  \<comment> \<open>any other failure of the host while executing a module\<close>

text \<open>\<^verbatim>\<open>CycleError.Error\<close>: \<^verbatim>\<open>%v\<close> prints a string slice as \<open>[a b c]\<close>.\<close>

definition CycleError_Error :: "string list \<Rightarrow> string" where
  "CycleError_Error stack = ''Starlark load cycle: '' @ ''['' @ joinWith '' '' stack @ '']''"

text \<open>
  The thread locals the loader reads: the current package, the current repository and
  the load stack; \<open>None\<close> is the unset local.
\<close>

record thread =
  t_name :: string
  t_current_pkg :: "string option"
  t_current_repo :: "string option"
  t_load_stack :: "string list option"

definition GetCurrentPackage :: "thread \<Rightarrow> string" where
  "GetCurrentPackage th = (case t_current_pkg th of Some pkg \<Rightarrow> pkg | None \<Rightarrow> [])"

definition GetCurrentRepo :: "thread \<Rightarrow> string" where
  "GetCurrentRepo th = (case t_current_repo th of Some repo \<Rightarrow> repo | None \<Rightarrow> [])"

definition getLoadStack :: "thread \<Rightarrow> string list" where
  "getLoadStack th = (case t_load_stack th of Some stack \<Rightarrow> stack | None \<Rightarrow> [])"

text \<open>
  A module as the host evaluator sees it: the module strings of its load statements, in
  order, and the outcome of executing the rest of the file (an error message or the
  globals).  The host executes the load statements first, calling the thread's
  \<^verbatim>\<open>Load\<close> for each, and fails on the first load that fails.
\<close>

record 'g bzl_module =
  m_loads :: "string list"
  m_outcome :: "string + 'g"

text \<open>
  \<^verbatim>\<open>loadEntry\<close>: the globals, the error, and whether the \<^verbatim>\<open>ready\<close> channel has been
  closed.
\<close>

record 'g loadEntry =
  e_globals :: "'g option"
  e_err :: "load_error option"
  e_ready :: bool

text \<open>
  \<^verbatim>\<open>BzlFileLoader\<close>: the file system (its \<^verbatim>\<open>ReadFile\<close> and \<^verbatim>\<open>Join\<close>), the
  repository root, the repository mapping and the cache.  The mutex orders concurrent
  callers and has no effect on one thread.
\<close>

record 'g BzlFileLoader =
  fs_ReadFile :: "string \<Rightarrow> string + 'g bzl_module"
  fs_Join :: "string list \<Rightarrow> string"
  repoRoot :: string
  repoMapping :: "string \<rightharpoonup> string"
  cache :: "string \<rightharpoonup> 'g loadEntry"

definition splitPkgTarget :: "string \<Rightarrow> load_error + string \<times> string" where
  "splitPkgTarget s =
     (case LastIndex s '':'' of
        None \<Rightarrow> Inl (InvalidLabelMissingColon s)
      | Some idx \<Rightarrow> Inr (take idx s, drop (idx + 1) s))"

definition resolveModule ::
  "'g BzlFileLoader \<Rightarrow> thread \<Rightarrow> string \<Rightarrow> load_error + string \<times> string" where
  "resolveModule l th module =
     (let currentPkg = GetCurrentPackage th; currentRepo = GetCurrentRepo th in
      case (if HasPrefix module ''@'' then
              (case Index module ''//'' of
                 None \<Rightarrow> Inl (InvalidLabelMissingSlashes module)
               | Some idx \<Rightarrow>
                   (case splitPkgTarget (drop (idx + 2) module) of
                      Inl err \<Rightarrow> Inl err
                    | Inr (pkg, file) \<Rightarrow> Inr (take (idx - 1) (drop 1 module), pkg, file)))
            else if HasPrefix module ''//'' then
              (case splitPkgTarget (drop 2 module) of
                 Inl err \<Rightarrow> Inl err
               | Inr (pkg, file) \<Rightarrow> Inr (currentRepo, pkg, file))
            else if HasPrefix module '':'' then Inr (currentRepo, currentPkg, drop 1 module)
            else Inr (currentRepo, currentPkg, module)) of
        Inl err \<Rightarrow> Inl err
      | Inr (repo, pkg, file) \<Rightarrow>
          if \<not> HasSuffix file ''.bzl'' \<and> \<not> HasSuffix file ''.scl'' then Inl (BadExtension file)
          else
            (let label = (if repo \<noteq> [] then ''@'' @ repo @ ''//'' @ pkg @ '':'' @ file
                          else ''//'' @ pkg @ '':'' @ file) in
             case (if repo \<noteq> [] then
                     (case repoMapping l repo of
                        Some mappedRoot \<Rightarrow> Inr mappedRoot
                      | None \<Rightarrow> if repo \<noteq> ''main'' then Inl (UnknownRepository repo)
                                else Inr (repoRoot l))
                   else Inr (repoRoot l)) of
               Inl err \<Rightarrow> Inl err
             | Inr root \<Rightarrow> Inr (label, fs_Join l [root, pkg, file])))"

type_synonym 'g load_result = "(load_error + 'g) \<times> 'g BzlFileLoader"

text \<open>
  The host executing the load statements of a module on the child thread.  \<open>nested\<close> is
  the \<^verbatim>\<open>Load\<close> callback of the child thread; \<open>None\<close> is a call that does not return.
\<close>

fun exec_loads ::
  "('g BzlFileLoader \<Rightarrow> thread \<Rightarrow> string \<Rightarrow> 'g load_result option) \<Rightarrow>
   'g BzlFileLoader \<Rightarrow> thread \<Rightarrow> string list \<Rightarrow> (load_error option \<times> 'g BzlFileLoader) option"
  where
  "exec_loads nested l th [] = Some (None, l)"
| "exec_loads nested l th (m # ms) =
     (case nested l th m of
        None \<Rightarrow> None
      | Some (Inl err, l') \<Rightarrow> Some (Some (HostLoadFailed m err), l')
      | Some (Inr g, l') \<Rightarrow> exec_loads nested l' th ms)"

definition loadFile ::
  "('g BzlFileLoader \<Rightarrow> thread \<Rightarrow> string \<Rightarrow> 'g load_result option) \<Rightarrow>
   'g BzlFileLoader \<Rightarrow> thread \<Rightarrow> string \<Rightarrow> string \<Rightarrow> string list \<Rightarrow> 'g load_result option" where
  "loadFile nested l th label path parentStack =
     (case fs_ReadFile l path of
        Inl err \<Rightarrow> Some (Inl (ReadFailed path err), l)
      | Inr source \<Rightarrow>
          (let pkg = (case Index label ''//'' of
                        Some idx \<Rightarrow>
                          (let rest = drop (idx + 2) label in
                           case LastIndex rest '':'' of
                             Some colonIdx \<Rightarrow> take colonIdx rest
                           | None \<Rightarrow> [])
                      | None \<Rightarrow> []);
               repo = (if HasPrefix label ''@'' then
                         (case Index label ''//'' of
                            Some idx \<Rightarrow> take (idx - 1) (drop 1 label)
                          | None \<Rightarrow> [])
                       else []);
               childThread = \<lparr> t_name = label, t_current_pkg = Some pkg,
                               t_current_repo = Some repo,
                               t_load_stack = Some (parentStack @ [label]) \<rparr>
           in case exec_loads nested l childThread (m_loads source) of
                None \<Rightarrow> None
              | Some (Some err, l') \<Rightarrow> Some (Inl (ExecFailed label err), l')
              | Some (None, l') \<Rightarrow>
                  (case m_outcome source of
                     Inl msg \<Rightarrow> Some (Inl (ExecFailed label (HostError msg)), l')
                   | Inr globals \<Rightarrow> Some (Inr globals, l'))))"

text \<open>
  The body of \<^verbatim>\<open>Load\<close>, with the loads nested in the module's execution performed by
  \<open>nested\<close>.  Waiting on the \<^verbatim>\<open>ready\<close> channel of an entry that is never completed does
  not return.
\<close>

definition entry_result :: "'g loadEntry \<Rightarrow> load_error + 'g" where
  "entry_result entry =
     (case e_err entry of
        Some err \<Rightarrow> Inl err
      | None \<Rightarrow> (case e_globals entry of Some g \<Rightarrow> Inr g | None \<Rightarrow> Inl (HostError [])))"

definition Load_body ::
  "('g BzlFileLoader \<Rightarrow> thread \<Rightarrow> string \<Rightarrow> 'g load_result option) \<Rightarrow>
   'g BzlFileLoader \<Rightarrow> thread \<Rightarrow> string \<Rightarrow> 'g load_result option" where
  "Load_body nested l th module =
     (case resolveModule l th module of
        Inl err \<Rightarrow> Some (Inl (LoadWrapped module err), l)
      | Inr (label, path) \<Rightarrow>
          (let loadStack = getLoadStack th in
           if label \<in> set loadStack
           then Some (Inl (CycleError module (loadStack @ [label])), l)
           else
             (case cache l label of
                None \<Rightarrow>
                  (let l1 = l\<lparr> cache := (cache l)(label \<mapsto>
                              \<lparr> e_globals = None, e_err = None, e_ready = False \<rparr>) \<rparr> in
                   case loadFile nested l1 th label path loadStack of
                     None \<Rightarrow> None
                   | Some (res, l2) \<Rightarrow>
                       (let entry = \<lparr> e_globals = (case res of Inr g \<Rightarrow> Some g | Inl _ \<Rightarrow> None),
                                      e_err = (case res of Inl err \<Rightarrow> Some err | Inr _ \<Rightarrow> None),
                                      e_ready = True \<rparr>
                        in Some (res, l2\<lparr> cache := (cache l2)(label \<mapsto> entry) \<rparr>)))
              | Some entry \<Rightarrow>
                  if e_ready entry then Some (entry_result entry, l) else None)))"

text \<open>
  \<^verbatim>\<open>Load\<close> with a bound on the depth of nested module executions: \<open>Load n\<close> returns
  \<open>None\<close> only where a module nested deeper than \<open>n\<close> would have to be executed, or where
  the call does not return.
\<close>

primrec Load ::
  "nat \<Rightarrow> 'g BzlFileLoader \<Rightarrow> thread \<Rightarrow> string \<Rightarrow> 'g load_result option" where
  "Load 0 = Load_body (\<lambda>l th module. None)"
| "Load (Suc n) = Load_body (Load n)"

text \<open>
  The specification's load-cycle scenario: \<open>a.bzl\<close> loads \<open>//:b.bzl\<close> and \<open>b.bzl\<close> loads
  \<open>//:a.bzl\<close>, in a file system that joins path elements with a slash.
\<close>

definition cycleFS :: "string \<Rightarrow> string + unit bzl_module" where
  "cycleFS path =
     (if path = ''a.bzl'' then Inr \<lparr> m_loads = [''//:b.bzl''], m_outcome = Inr () \<rparr>
      else if path = ''b.bzl'' then Inr \<lparr> m_loads = [''//:a.bzl''], m_outcome = Inr () \<rparr>
      else Inl ''file does not exist'')"

definition cycleLoader :: "unit BzlFileLoader" where
  "cycleLoader = \<lparr> fs_ReadFile = cycleFS, fs_Join = (\<lambda>parts. joinWith ''/'' (filter (\<lambda>p. p \<noteq> []) parts)),
                    repoRoot = [], repoMapping = Map.empty, cache = Map.empty \<rparr>"

definition topThread :: thread where
  "topThread = \<lparr> t_name = ''top'', t_current_pkg = Some [], t_current_repo = None,
                 t_load_stack = None \<rparr>"

definition inBThread :: thread where
  "inBThread = \<lparr> t_name = ''//:b.bzl'', t_current_pkg = Some [], t_current_repo = Some [],
                 t_load_stack = Some [''//:a.bzl'', ''//:b.bzl''] \<rparr>"

section \<open>Rule classes and targets\<close>

datatype AttrType =
    AttrTypeString | AttrTypeInt | AttrTypeBool | AttrTypeLabel | AttrTypeLabelList
  | AttrTypeStringList | AttrTypeStringDict | AttrTypeOutput | AttrTypeOutputList

text \<open>
  \<^verbatim>\<open>AttrDescriptor\<close> and \<^verbatim>\<open>types.RuleClass\<close>, with the fields that \<^verbatim>\<open>NewRuleClass\<close>,
  \<^verbatim>\<open>SetName\<close>, \<^verbatim>\<open>Freeze\<close> and \<^verbatim>\<open>CallInternal\<close> read or write (the documentation
  strings, the implementation function and the analysis options are carried through
  unread by them).  A default of \<open>None\<close> is the nil default.  The attribute map is kept as
  an association list with distinct keys; its order stands for the order in which the Go
  runtime iterates over the map.
\<close>

record 'a AttrDescriptor =
  ad_Name :: string
  ad_Type :: AttrType
  ad_Default :: "'a option"
  ad_Mandatory :: bool

record 'a RuleClass =
  rc_name :: string
  rc_exported :: bool
  rc_attrs :: "(string \<times> 'a AttrDescriptor) list"
  rc_executable :: bool
  rc_test :: bool
  rc_frozen :: bool

definition addAttr ::
  "string \<Rightarrow> AttrType \<Rightarrow> 'a option \<Rightarrow> bool \<Rightarrow> (string \<times> 'a AttrDescriptor) list \<Rightarrow>
   (string \<times> 'a AttrDescriptor) list" where
  "addAttr name ty dflt mand attrs =
     (if map_of attrs name \<noteq> None then attrs
      else attrs @ [(name, \<lparr> ad_Name = name, ad_Type = ty, ad_Default = dflt,
                             ad_Mandatory = mand \<rparr>)])"

definition addTestAttributes ::
  "'a value_ops \<Rightarrow> (string \<times> 'a AttrDescriptor) list \<Rightarrow> (string \<times> 'a AttrDescriptor) list" where
  "addTestAttributes ops attrs =
     (addAttr ''args'' AttrTypeStringList (Some (MkList ops [])) False
     (addAttr ''local'' AttrTypeBool (Some (MkBool ops False)) False
     (addAttr ''shard_count'' AttrTypeInt (Some (MkInt ops (- 1))) False
     (addAttr ''flaky'' AttrTypeBool (Some (MkBool ops False)) False
     (addAttr ''timeout'' AttrTypeString (Some (NoneVal ops)) False
     (addAttr ''size'' AttrTypeString (Some (MkString ops ''medium'')) False attrs))))))"

definition addExecutableAttributes ::
  "'a value_ops \<Rightarrow> (string \<times> 'a AttrDescriptor) list \<Rightarrow> (string \<times> 'a AttrDescriptor) list" where
  "addExecutableAttributes ops attrs =
     (addAttr ''output_licenses'' AttrTypeStringList (Some (MkList ops [])) False
     (addAttr ''args'' AttrTypeStringList (Some (MkList ops [])) False attrs))"

definition addImplicitAttributes :: "'a value_ops \<Rightarrow> 'a RuleClass \<Rightarrow> 'a RuleClass" where
  "addImplicitAttributes ops rc =
     (let core =
        (addAttr ''features'' AttrTypeStringList (Some (MkList ops [])) False
        (addAttr ''deprecation'' AttrTypeString (Some (NoneVal ops)) False
        (addAttr ''testonly'' AttrTypeBool (Some (MkBool ops False)) False
        (addAttr ''tags'' AttrTypeStringList (Some (MkList ops [])) False
        (addAttr ''visibility'' AttrTypeLabelList (Some (NoneVal ops)) False
        (addAttr ''name'' AttrTypeString None True (rc_attrs rc)))))));
          withTest = (if rc_test rc then addTestAttributes ops core else core);
          withExec = (if rc_executable rc \<and> \<not> rc_test rc
                      then addExecutableAttributes ops withTest else withTest)
      in rc\<lparr> rc_attrs := withExec \<rparr>)"

text \<open>\<^verbatim>\<open>NewRuleClass\<close>, with the options \<^verbatim>\<open>WithExecutable\<close> and \<^verbatim>\<open>WithTest\<close> applied.\<close>

definition NewRuleClass ::
  "'a value_ops \<Rightarrow> string \<Rightarrow> (string \<times> 'a AttrDescriptor) list \<Rightarrow> bool \<Rightarrow> bool \<Rightarrow> 'a RuleClass"
  where
  "NewRuleClass ops name attrs executable test =
     addImplicitAttributes ops
       \<lparr> rc_name = name, rc_exported = False, rc_attrs = attrs, rc_executable = executable,
         rc_test = test, rc_frozen = False \<rparr>"

text \<open>
  \<^verbatim>\<open>types.RuleBuiltin\<close>, the evaluator's \<open>rule\<close>: every key of the \<open>attrs\<close> dict becomes
  a string-typed descriptor, and the rule class is created with the empty name.
\<close>

definition attrMapOf :: "string list \<Rightarrow> (string \<times> 'a AttrDescriptor) list" where
  "attrMapOf names =
     map (\<lambda>name. (name, \<lparr> ad_Name = name, ad_Type = AttrTypeString, ad_Default = None,
                              ad_Mandatory = False \<rparr>)) (remdups names)"

definition RuleBuiltin :: "'a value_ops \<Rightarrow> string list \<Rightarrow> bool \<Rightarrow> bool \<Rightarrow> 'a RuleClass" where
  "RuleBuiltin ops attrNames executable test =
     NewRuleClass ops [] (attrMapOf attrNames) executable test"

definition SetName :: "'a RuleClass \<Rightarrow> string \<Rightarrow> 'a RuleClass" where
  "SetName rc name = rc\<lparr> rc_name := name, rc_exported := True \<rparr>"

definition IsExported :: "'a RuleClass \<Rightarrow> bool" where
  "IsExported rc = rc_exported rc"

definition RuleClass_Freeze :: "'a RuleClass \<Rightarrow> 'a RuleClass" where
  "RuleClass_Freeze rc = rc\<lparr> rc_frozen := True \<rparr>"

record 'a RuleInstance =
  ri_ruleClass :: "'a RuleClass"
  ri_name :: string
  ri_label :: "Label option"
  ri_attrValues :: "string \<rightharpoonup> 'a"
  ri_location :: string
  ri_frozen :: bool

datatype attr_value_error =
    MandatoryNone  \<comment> \<open>mandatory attribute cannot be None\<close>
  | Expected string string  \<comment> \<open>expected <what>, got <type>\<close>

datatype rule_error =
    RuleUnexpectedPositional string  \<comment> \<open><rule>: unexpected positional arguments\<close>
  | NotExported  \<comment> \<open>rule has not been exported by a bzl file\<close>
  | UnexpectedAttribute string string  \<comment> \<open><rule>: unexpected attribute "<key>"\<close>
  | AttributeInvalid string string attr_value_error  \<comment> \<open><rule>: attribute "<key>": <err>\<close>
  | MissingMandatory string string  \<comment> \<open><rule>: missing mandatory attribute "<name>"\<close>
  | MissingName string  \<comment> \<open><rule>: missing mandatory attribute 'name'\<close>
  | NameNotString string string  \<comment> \<open><rule>: attribute 'name' must be a string, got <type>\<close>

definition validateAttrValue ::
  "'a value_ops \<Rightarrow> 'a AttrDescriptor \<Rightarrow> 'a \<Rightarrow> attr_value_error option" where
  "validateAttrValue ops attr v =
     (if Kind_of ops v = GoNone then (if ad_Mandatory attr then Some MandatoryNone else None)
      else
        (case ad_Type attr of
           AttrTypeString \<Rightarrow>
             if Kind_of ops v \<noteq> GoString then Some (Expected ''string'' (Type_of ops v)) else None
         | AttrTypeInt \<Rightarrow>
             if Kind_of ops v \<noteq> GoInt then Some (Expected ''int'' (Type_of ops v)) else None
         | AttrTypeBool \<Rightarrow>
             if Kind_of ops v \<noteq> GoBool then Some (Expected ''bool'' (Type_of ops v)) else None
         | AttrTypeLabel \<Rightarrow>
             if Kind_of ops v = GoString \<or> Kind_of ops v = GoLabel then None
             else Some (Expected ''label (string or Label)'' (Type_of ops v))
         | AttrTypeStringDict \<Rightarrow>
             if Kind_of ops v \<noteq> GoDict then Some (Expected ''dict'' (Type_of ops v)) else None
         | AttrTypeOutput \<Rightarrow>
             if Kind_of ops v \<noteq> GoString
             then Some (Expected ''string (output name)'' (Type_of ops v)) else None
         | _ \<Rightarrow>
             if Kind_of ops v \<noteq> GoList \<and> Kind_of ops v \<noteq> GoTuple
             then Some (Expected ''list'' (Type_of ops v)) else None))"

text \<open>The loop of \<^verbatim>\<open>CallInternal\<close> over the keyword arguments.\<close>

fun checkKwargs ::
  "'a value_ops \<Rightarrow> 'a RuleClass \<Rightarrow> (string \<times> 'a) list \<Rightarrow> (string \<rightharpoonup> 'a) \<Rightarrow> string set \<Rightarrow>
   rule_error + (string \<rightharpoonup> 'a) \<times> string set" where
  "checkKwargs ops rc [] vals provided = Inr (vals, provided)"
| "checkKwargs ops rc ((key, v) # kwargs) vals provided =
     (case map_of (rc_attrs rc) key of
        None \<Rightarrow> Inl (UnexpectedAttribute (rc_name rc) key)
      | Some attr \<Rightarrow>
          (case validateAttrValue ops attr v of
             Some err \<Rightarrow> Inl (AttributeInvalid (rc_name rc) key err)
           | None \<Rightarrow> checkKwargs ops rc kwargs (vals(key \<mapsto> v)) (insert key provided)))"

text \<open>The loop over the attribute map: mandatory attributes and defaults.\<close>

fun applyDefaults ::
  "string \<Rightarrow> (string \<times> 'a AttrDescriptor) list \<Rightarrow> string set \<Rightarrow> (string \<rightharpoonup> 'a) \<Rightarrow>
   rule_error + (string \<rightharpoonup> 'a)" where
  "applyDefaults rname [] provided vals = Inr vals"
| "applyDefaults rname ((name, attr) # attrs) provided vals =
     (if name \<notin> provided then
        (if ad_Mandatory attr then Inl (MissingMandatory rname name)
         else applyDefaults rname attrs provided
                (case ad_Default attr of Some d \<Rightarrow> vals(name \<mapsto> d) | None \<Rightarrow> vals))
      else applyDefaults rname attrs provided vals)"

definition RuleClass_CallInternal ::
  "'a value_ops \<Rightarrow> 'a RuleClass \<Rightarrow> 'a list \<Rightarrow> (string \<times> 'a) list \<Rightarrow> rule_error + 'a RuleInstance"
  where
  "RuleClass_CallInternal ops rc args kwargs =
     (if length args > 0 then Inl (RuleUnexpectedPositional (rc_name rc))
      else if \<not> rc_exported rc then Inl NotExported
      else
        (case checkKwargs ops rc kwargs Map.empty {} of
           Inl err \<Rightarrow> Inl err
         | Inr (vals, provided) \<Rightarrow>
             (case applyDefaults (rc_name rc) (rc_attrs rc) provided vals of
                Inl err \<Rightarrow> Inl err
              | Inr attrValues \<Rightarrow>
                  (case attrValues ''name'' of
                     None \<Rightarrow> Inl (MissingName (rc_name rc))
                   | Some nameVal \<Rightarrow>
                       if Kind_of ops nameVal \<noteq> GoString
                       then Inl (NameNotString (rc_name rc) (Type_of ops nameVal))
                       else Inr \<lparr> ri_ruleClass = rc, ri_name = Str_of ops nameVal,
                                  ri_label = None, ri_attrValues = attrValues,
                                  ri_location = [], ri_frozen = False \<rparr>))))"

subsection \<open>Registering targets\<close>

text \<open>
  \<^verbatim>\<open>eval.Package\<close> (name and target map; the defaults set by \<open>package()\<close> are not read
  by registration) and the two thread locals \<^verbatim>\<open>RegisterTarget\<close> consults: the package
  and the plain \<open>targets\<close> map.
\<close>

record 'a Package =
  pkg_Name :: string
  pkg_Root :: string
  pkg_BuildFile :: string
  pkg_Targets :: "string \<rightharpoonup> 'a RuleInstance"

record 'a build_thread =
  bt_package :: "'a Package option"
  bt_targets :: "(string \<rightharpoonup> 'a RuleInstance) option"

datatype register_error =
    DuplicateInPackage string string  \<comment> \<open>duplicate target name "<name>" in package "<pkg>"\<close>
  | DuplicateTarget string  \<comment> \<open>duplicate target name "<name>"\<close>
  | NoTargetRegistry  \<comment> \<open>no target registry in thread\<close>

fun isDuplicateError :: "register_error \<Rightarrow> bool" where
  "isDuplicateError (DuplicateInPackage _ _) = True"
| "isDuplicateError (DuplicateTarget _) = True"
| "isDuplicateError NoTargetRegistry = False"

definition AddTarget ::
  "'a Package \<Rightarrow> string \<Rightarrow> 'a RuleInstance \<Rightarrow> register_error option \<times> 'a Package" where
  "AddTarget p name target =
     (if pkg_Targets p name \<noteq> None then (Some (DuplicateInPackage name (pkg_Name p)), p)
      else (None, p\<lparr> pkg_Targets := (pkg_Targets p)(name \<mapsto> target) \<rparr>))"

definition RegisterTarget ::
  "'a build_thread \<Rightarrow> 'a RuleInstance \<Rightarrow> register_error option \<times> 'a build_thread" where
  "RegisterTarget th target =
     (let name = ri_name target in
      case bt_package th of
        Some pkg \<Rightarrow>
          (case AddTarget pkg name target of
             (err, pkg') \<Rightarrow> (err, th\<lparr> bt_package := Some pkg' \<rparr>))
      | None \<Rightarrow>
          (case bt_targets th of
             Some targets \<Rightarrow>
               if targets name \<noteq> None then (Some (DuplicateTarget name), th)
               else (None, th\<lparr> bt_targets := Some (targets(name \<mapsto> target)) \<rparr>)
           | None \<Rightarrow> (Some NoTargetRegistry, th)))"

text \<open>
  The registry a thread registers into, and a BUILD-file evaluation seen as the sequence
  of registrations it performs: it stops at the first error.
\<close>

definition registry :: "'a build_thread \<Rightarrow> (string \<rightharpoonup> 'a RuleInstance)" where
  "registry th =
     (case bt_package th of
        Some pkg \<Rightarrow> pkg_Targets pkg
      | None \<Rightarrow> (case bt_targets th of Some targets \<Rightarrow> targets | None \<Rightarrow> Map.empty))"

fun registerAll ::
  "'a build_thread \<Rightarrow> 'a RuleInstance list \<Rightarrow> register_error option \<times> 'a build_thread" where
  "registerAll th [] = (None, th)"
| "registerAll th (t # ts) =
     (case RegisterTarget th t of
        (Some err, th') \<Rightarrow> (Some err, th')
      | (None, th') \<Rightarrow> registerAll th' ts)"

text \<open>Every key of the registry is the name of the target stored under it.\<close>

definition keyed_by_name :: "(string \<rightharpoonup> 'a RuleInstance) \<Rightarrow> bool" where
  "keyed_by_name m = (\<forall>n t. m n = Some t \<longrightarrow> ri_name t = n)"

text \<open>The thread \<^verbatim>\<open>EvalBuild\<close> sets up: an empty \<open>targets\<close> map and no package.\<close>

definition evalBuildThread :: "'a build_thread" where
  "evalBuildThread = \<lparr> bt_package = None, bt_targets = Some Map.empty \<rparr>"

definition packageThread :: "string \<Rightarrow> 'a build_thread" where
  "packageThread name =
     \<lparr> bt_package = Some \<lparr> pkg_Name = name, pkg_Root = [], pkg_BuildFile = [],
                           pkg_Targets = Map.empty \<rparr>,
       bt_targets = None \<rparr>"

subsection \<open>Evaluating a module\<close>

text \<open>
  The host evaluator runs the module.  For the export protocol what matters of a module
  is its top-level assignments of \<open>rule(...)\<close> and \<open>provider(...)\<close> calls: the host calls
  the predeclared builtin and binds the identifier to the value returned.  The thread
  \<^verbatim>\<open>EvalBzl\<close> creates carries a name, a print handler and a load function, and nothing
  that observes an assignment.
\<close>

datatype 'a toplevel =
    AssignRule string "string list" bool bool
  | AssignProvider string string "'a list option"
      "('a list \<Rightarrow> (string \<times> 'a) list \<Rightarrow> string + 'a) option"

datatype 'a global_value =
    GRule "'a RuleClass"
  | GProvider "'a provider_value"

fun host_ExecFile ::
  "'a value_ops \<Rightarrow> 'a toplevel list \<Rightarrow> (string \<rightharpoonup> 'a global_value) \<Rightarrow>
   builtin_error + (string \<rightharpoonup> 'a global_value)" where
  "host_ExecFile ops [] globals = Inr globals"
| "host_ExecFile ops (AssignRule x attrNames executable test # rest) globals =
     host_ExecFile ops rest (globals(x \<mapsto> GRule (RuleBuiltin ops attrNames executable test)))"
| "host_ExecFile ops (AssignProvider x doc flds init # rest) globals =
     (case providerBuiltin ops doc flds init of
        Inl err \<Rightarrow> Inl err
      | Inr v \<Rightarrow> host_ExecFile ops rest (globals(x \<mapsto> GProvider v)))"

record 'a BzlResult =
  Globals :: "string \<rightharpoonup> 'a global_value"

datatype eval_error = EvaluatingFailed string builtin_error  \<comment> \<open>evaluating <path>: <err>\<close>

text \<open>
  \<^verbatim>\<open>Evaluator.EvalBzl\<close>: it derives the package from the path, sets up the thread, runs
  the host on the source and returns the globals the host hands back.
\<close>

definition filepath_Dir :: "string \<Rightarrow> string" where
  "filepath_Dir path =
     (case LastIndex path ''/'' of
        None \<Rightarrow> ''.''
      | Some idx \<Rightarrow> if idx = 0 then ''/'' else take idx path)"

definition TrimPrefix :: "string \<Rightarrow> string \<Rightarrow> string" where
  "TrimPrefix s pre = (if HasPrefix s pre then drop (length pre) s else s)"

definition EvalBzl ::
  "'a value_ops \<Rightarrow> string \<Rightarrow> 'a toplevel list \<Rightarrow> eval_error + 'a BzlResult" where
  "EvalBzl ops path source =
     (let dir = filepath_Dir path;
          pkg0 = TrimPrefix dir ''/'';
          pkg = (if pkg0 = ''.'' then [] else pkg0);
          th = \<lparr> t_name = path, t_current_pkg = Some pkg, t_current_repo = None,
                 t_load_stack = None \<rparr>
      in case host_ExecFile ops source Map.empty of
           Inl err \<Rightarrow> Inl (EvaluatingFailed path err)
         | Inr globals \<Rightarrow> Inr \<lparr> Globals = globals \<rparr>)"

text \<open>The rule class \<open>my_rule = rule(implementation = _impl, attrs = {"srcs": ...})\<close>.\<close>

definition my_rule :: "sval RuleClass" where
  "my_rule = RuleBuiltin sval_ops [''srcs''] False False"

definition sampleTarget :: "string \<Rightarrow> sval RuleInstance" where
  "sampleTarget n =
     \<lparr> ri_ruleClass = SetName my_rule ''my_rule'', ri_name = n, ri_label = None,
       ri_attrValues = [''name'' \<mapsto> SStr n], ri_location = [], ri_frozen = False \<rparr>"

section \<open>The native \<open>glob\<close>\<close>

subsection \<open>The file system under the package directory\<close>












subsection \<open>Walking\<close>


















subsection \<open>What a recursive pattern may return\<close>




subsection \<open>A matcher and two packages for the examples\<close>







section \<open>Properties of depsets\<close>

declare reverse_loop.simps [simp del]

lemma dedup_onto_append:
  "dedup_onto ops acc (xs @ ys) = dedup_onto ops (dedup_onto ops acc xs) ys"
  by (induction xs arbitrary: acc) auto

lemma list_ex_bucket:
  "list_ex P (filter (\<lambda>v. k v = h) xs) = list_ex (\<lambda>v. k v = h \<and> P v) xs"
  by (induction xs) auto

lemma addDirect_refines:
  "seen_inv ops st \<Longrightarrow>
   seen_inv ops (addDirect ops d st) \<and> snd (addDirect ops d st) = dedup_onto ops (snd st) d"
proof (induction d arbitrary: st)
  case Nil
  then show ?case by simp
next
  case (Cons x d)
  obtain seen result where st: "st = (seen, result)" by (cases st)
  from Cons.prems st
  have b: "seen (elemKey ops x) = filter (\<lambda>v. elemKey ops v = elemKey ops x) result"
    by (simp add: seen_inv_def)
  show ?case
  proof (cases "list_ex (\<lambda>v. elemKey ops v = elemKey ops x \<and> Equal_of ops v x) result")
    case True
    then have "alreadySeen ops seen x = (True, seen)"
      by (simp add: alreadySeen_def b list_ex_bucket)
    with Cons.IH [of "(seen, result)"] Cons.prems st True show ?thesis by simp
  next
    case False
    then have a: "alreadySeen ops seen x = (False, seen(elemKey ops x := seen (elemKey ops x) @ [x]))"
      by (simp add: alreadySeen_def b list_ex_bucket Let_def)
    have "seen_inv ops (seen(elemKey ops x := seen (elemKey ops x) @ [x]), result @ [x])"
      using Cons.prems st by (auto simp: seen_inv_def)
    from Cons.IH [OF this] a st False show ?thesis by simp
  qed
qed

lemma walk_refines:
  "seen_inv ops st \<Longrightarrow>
     seen_inv ops (walk ops ord d st) \<and>
     snd (walk ops ord d st) = dedup_onto ops (snd st) (flatten ord d)"
  and addTransitive_refines:
  "seen_inv ops st \<Longrightarrow>
     seen_inv ops (addTransitive ops ord ts st) \<and>
     snd (addTransitive ops ord ts st) = dedup_onto ops (snd st) (concat (map (flatten ord) ts))"
proof (induction ops ord d st and ops ord ts st rule: walk_addTransitive.induct)
  case (1 ops ord o' d ts et st)
  show ?case
  proof (cases "ord = OrderPreorder")
    case True
    from addDirect_refines [OF "1.prems"] have
      a: "seen_inv ops (addDirect ops d st)"
      and b: "snd (addDirect ops d st) = dedup_onto ops (snd st) d"
      by simp_all
    from "1.IH"(1) [OF True a] True b show ?thesis by (simp add: dedup_onto_append)
  next
    case False
    from "1.IH"(2) [OF False "1.prems"] have
      a: "seen_inv ops (addTransitive ops ord ts st)"
      and b: "snd (addTransitive ops ord ts st) =
              dedup_onto ops (snd st) (concat (map (flatten ord) ts))"
      by simp_all
    from addDirect_refines [OF a] False b show ?thesis by (simp add: dedup_onto_append)
  qed
next
  case (2 ops ord st)
  then show ?case by simp
next
  case (3 ops ord t ts st)
  from "3.IH"(1) [OF "3.prems"] have
    a: "seen_inv ops (walk ops ord t st)"
    and b: "snd (walk ops ord t st) = dedup_onto ops (snd st) (flatten ord t)"
    by simp_all
  from "3.IH"(2) [OF a] b show ?case by (simp add: dedup_onto_append)
qed

text \<open>The swap loop reverses the slice: the segment between the two indices is reversed,
  what lies outside stays.\<close>

lemma reverse_loop_middle:
  "length a = length b \<Longrightarrow> i = int (length a) \<Longrightarrow> j = int (length a) + int (length m) - 1 \<Longrightarrow>
   reverse_loop i j (a @ m @ b) = a @ rev m @ b"
proof (induction "length m" arbitrary: a m b i j rule: less_induct)
  case less
  show ?case
  proof (cases "length m \<le> 1")
    case True
    then have "rev m = m" by (cases m) auto
    moreover from True less.prems have "\<not> i < j" by simp
    ultimately show ?thesis by (subst reverse_loop.simps) simp
  next
    case False
    then obtain x m0 where m0: "m = x # m0" "m0 \<noteq> []"
      by (cases m) auto
    then obtain m' y where "m0 = m' @ [y]"
      by (cases m0 rule: rev_cases) auto
    with m0 have m: "m = x # m' @ [y]" by simp
    have ij: "i < j" "0 \<le> i" using less.prems m by simp_all
    have ni: "nat i = length a" using less.prems by simp
    have nj: "nat j = length a + length m' + 1" using less.prems m by simp
    have gi: "(a @ m @ b) ! nat i = x" using ni m by (simp add: nth_append)
    have gj: "(a @ m @ b) ! nat j = y" using nj m by (simp add: nth_append)
    have upd: "(a @ m @ b)[nat i := y, nat j := x] = (a @ [y]) @ m' @ ([x] @ b)"
      using ni nj m by (simp add: list_update_append)
    have "reverse_loop i j (a @ m @ b) = reverse_loop (i + 1) (j - 1) ((a @ [y]) @ m' @ ([x] @ b))"
      by (subst reverse_loop.simps) (simp add: ij gi gj upd del: append_assoc append.simps)
    also have "\<dots> = (a @ [y]) @ rev m' @ ([x] @ b)"
      by (rule less.hyps) (use less.prems m in auto)
    finally show ?thesis using m by simp
  qed
qed

lemma reverse_loop_rev: "reverse_loop 0 (int (length xs) - 1) xs = rev xs"
  using reverse_loop_middle [of "[]" "[]" 0 "int (length xs) - 1" xs] by simp

lemma ToList_general:
  "ToList ops d =
     (if order d = OrderTopological then rev (first_wins ops (flatten (order d) d))
      else first_wins ops (flatten (order d) d))"
proof -
  have "seen_inv ops (\<lambda>h. [], [])" by (simp add: seen_inv_def)
  from walk_refines [OF this, of "order d" d]
  have "snd (walk ops (order d) d (\<lambda>h. [], [])) = first_wins ops (flatten (order d) d)"
    by (simp add: first_wins_def)
  then show ?thesis
    by (auto simp: ToList_def reverse_loop_rev split: prod.splits)
qed

lemma remdups_drop_repeated: "x \<in> set b \<Longrightarrow> remdups (a @ x # b) = remdups (a @ b)"
  by (induction a) auto

lemma dedup_onto_remdups:
  assumes eq: "\<forall>x y. Equal_of ops x y = (x = y)"
  shows "distinct acc \<Longrightarrow> dedup_onto ops acc xs = rev (remdups (rev (acc @ xs)))"
proof (induction xs arbitrary: acc)
  case Nil
  then show ?case by (simp add: distinct_remdups_id)
next
  case (Cons x xs)
  have ex: "list_ex (\<lambda>v. elemKey ops v = elemKey ops x \<and> Equal_of ops v x) acc = (x \<in> set acc)"
    using eq by (auto simp: list_ex_iff)
  show ?case
  proof (cases "x \<in> set acc")
    case True
    then have "remdups (rev xs @ x # rev acc) = remdups (rev xs @ rev acc)"
      by (intro remdups_drop_repeated) simp
    with True ex Cons.IH [OF Cons.prems] show ?thesis by simp
  next
    case False
    with Cons.prems have "distinct (acc @ [x])" by simp
    from Cons.IH [OF this] False ex show ?thesis by simp
  qed
qed

lemma first_wins_remdups:
  "\<forall>x y. Equal_of ops x y = (x = y) \<Longrightarrow> first_wins ops xs = rev (remdups (rev xs))"
  using dedup_onto_remdups [of ops "[]" xs] by (simp add: first_wins_def)

lemma ToList_depsetB: "ToList sval_ops depsetB = [SInt 1, SInt 2, SInt 3]"
  by (simp add: ToList_general first_wins_def depsetA_def depsetB_def sval_ops_def)

lemma NewDepset_depsetB:
  "NewDepset sval_ops OrderPostorder [SInt 2, SInt 3] [depsetA] = Inr depsetB"
  by (simp add: NewDepset_def checkAndSetType_def sval_ops_def depsetA_def depsetB_def
      IsCompatible_def)

text \<open>
  Claim C2.  \<^verbatim>\<open>ToList\<close> threads a hash-indexed seen-map and a result slice through the
  mutually recursive \<^verbatim>\<open>walk\<close>/\<^verbatim>\<open>addTransitive\<close>.  Its result is the traversal
  sequence \<open>flatten\<close> (for preorder: direct elements, then children, left to right; for
  postorder and default: children, then direct elements) deduplicated globally with the
  first appearance winning; for topological it is the deduplicated postorder result
  reversed.  An element is a duplicate when an element kept earlier lies in the same
  bucket (its hash, or the string hash of its rendering when it is unhashable) and equals
  it; where host equality is identity of values this is the first-occurrence
  \<open>remdups\<close>.  \<^verbatim>\<open>ToList\<close> starts from an empty seen-map on every call and reads nothing
  but the depset, so repeated calls return the same sequence.  For the scenario's depsets,
  \<open>B.to_list()\<close> is \<open>[1, 2, 3]\<close>.
\<close>

theorem ToList_traversal_first_wins:
  "ToList ops d =
     (if order d = OrderTopological then rev (first_wins ops (flatten (order d) d))
      else first_wins ops (flatten (order d) d))
   \<and> flatten OrderPreorder (Depset o1 ds ts et) = ds @ concat (map (flatten OrderPreorder) ts)
   \<and> flatten OrderPostorder (Depset o1 ds ts et) = concat (map (flatten OrderPostorder) ts) @ ds
   \<and> flatten OrderDefault (Depset o1 ds ts et) = concat (map (flatten OrderDefault) ts) @ ds
   \<and> flatten OrderTopological (Depset o1 ds ts et) =
       concat (map (flatten OrderTopological) ts) @ ds
   \<and> ((\<forall>x y. Equal_of ops x y = (x = y)) \<longrightarrow> first_wins ops xs = rev (remdups (rev xs)))
   \<and> NewDepset sval_ops OrderDefault [SInt 1, SInt 2] [] = Inr depsetA
   \<and> NewDepset sval_ops OrderPostorder [SInt 2, SInt 3] [depsetA] = Inr depsetB
   \<and> ToList sval_ops depsetB = [SInt 1, SInt 2, SInt 3]"
proof -
  have a: "NewDepset sval_ops OrderDefault [SInt 1, SInt 2] [] = Inr depsetA"
    by (simp add: NewDepset_def checkAndSetType_def sval_ops_def depsetA_def)
  show ?thesis
    using ToList_general [of ops d] first_wins_remdups [of ops xs] a NewDepset_depsetB
      ToList_depsetB
    by simp
qed

theorem ToList_traversal_first_wins_witness:
  "(\<forall>x y. Equal_of sval_ops x y = (x = y))
   \<and> first_wins sval_ops (flatten (order depsetB) depsetB) = [SInt 1, SInt 2, SInt 3]
   \<and> ToList sval_ops depsetB = first_wins sval_ops (flatten (order depsetB) depsetB)"
proof -
  have h: "\<forall>x y. Equal_of sval_ops x y = (x = y)" by (simp add: sval_ops_def)
  have f: "flatten (order depsetB) depsetB = [SInt 1, SInt 2, SInt 2, SInt 3]"
    by (simp add: depsetA_def depsetB_def)
  from ToList_traversal_first_wins [of sval_ops depsetB _ _ _ _ "[SInt 1, SInt 2, SInt 2, SInt 3]"] h f
  show ?thesis by (simp add: depsetB_def)
qed

text \<open>Shared facts about the checks of \<^verbatim>\<open>NewDepset\<close>.\<close>

lemma checkTransitive_ok_compat:
  "checkTransitive ord et ts = Inr et' \<Longrightarrow> t \<in> set ts \<Longrightarrow> \<not> isEmpty t \<Longrightarrow>
   IsCompatible ord (order t)"
  by (induction ord et ts rule: checkTransitive.induct) (auto split: if_splits)

lemma checkTransitive_append:
  "checkTransitive ord et (pre @ post) =
     (case checkTransitive ord et pre of
        Inl e \<Rightarrow> Inl e
      | Inr et1 \<Rightarrow> checkTransitive ord et1 post)"
  by (induction ord et pre rule: checkTransitive.induct) auto

lemma NewDepset_ok_compat:
  "NewDepset ops ord ds ts = Inr d \<Longrightarrow> t \<in> set ts \<Longrightarrow> \<not> isEmpty t \<Longrightarrow>
   IsCompatible ord (order t)"
  by (auto simp: NewDepset_def split: sum.splits dest: checkTransitive_ok_compat)

lemma NewDepset_bad_fails:
  assumes "t \<in> set ts" "\<not> isEmpty t" "\<not> IsCompatible ord (order t)"
  shows "\<exists>e. NewDepset ops ord ds ts = Inl e"
proof (cases "NewDepset ops ord ds ts")
  case (Inl e)
  then show ?thesis by blast
next
  case (Inr d)
  from NewDepset_ok_compat [OF Inr assms(1,2)] assms(3) show ?thesis by simp
qed

lemma NewDepset_first_bad:
  assumes "checkDirect ops [] ds = Inr et" "checkTransitive ord et pre = Inr et1"
    "\<not> isEmpty t" "\<not> IsCompatible ord (order t)"
  shows "NewDepset ops ord ds (pre @ t # post) = Inl (OrderIncompatible ord (order t))"
  using assms by (simp add: NewDepset_def checkTransitive_append)

text \<open>
  Claim C7, where it fails as stated.  A topological depset is built with a non-empty
  postorder child, so an incompatible order is present; the direct element is a list, and
  the element check of the first loop runs before any order check.  Construction fails
  with the forbidden-item error, not with an order-incompatibility error.
\<close>

theorem NewDepset_order_error_counterexample:
  "\<not> isEmpty (Depset OrderPostorder [SInt 1] [] ''int'')
   \<and> \<not> IsCompatible OrderTopological (order (Depset OrderPostorder [SInt 1] [] ''int''))
   \<and> NewDepset sval_ops OrderTopological [SList []] [Depset OrderPostorder [SInt 1] [] ''int'']
       = Inl (ForbiddenItem ''list'')"
  by (simp add: NewDepset_def checkAndSetType_def sval_ops_def IsCompatible_def)

text \<open>
  Claim C7, as amended.  Two orders are compatible iff they are equal or one of them is
  default.  Construction succeeds only if the order is compatible with the order of every
  non-empty child.  If some non-empty child is incompatible, construction fails; the
  error is the order-incompatibility error for that child whenever the direct elements
  pass the element checks and the children before it pass their checks (an earlier
  forbidden-item or type-mismatch error is reported otherwise).  In particular a
  topological depset with a non-empty postorder or preorder child is never constructed.
\<close>

theorem NewDepset_order_compatibility:
  "IsCompatible a b = (a = b \<or> a = OrderDefault \<or> b = OrderDefault)
   \<and> (NewDepset ops ord ds ts = Inr d \<longrightarrow>
        (\<forall>t \<in> set ts. \<not> isEmpty t \<longrightarrow> IsCompatible ord (order t)))
   \<and> ((\<exists>t \<in> set ts. \<not> isEmpty t \<and> \<not> IsCompatible ord (order t)) \<longrightarrow>
        (\<exists>e. NewDepset ops ord ds ts = Inl e))
   \<and> (checkDirect ops [] ds = Inr et \<and> checkTransitive ord et pre = Inr et1 \<and>
        \<not> isEmpty c \<and> \<not> IsCompatible ord (order c) \<longrightarrow>
        NewDepset ops ord ds (pre @ c # post) = Inl (OrderIncompatible ord (order c)))
   \<and> (\<not> isEmpty c \<and> (order c = OrderPostorder \<or> order c = OrderPreorder) \<longrightarrow>
        (\<exists>e. NewDepset ops OrderTopological ds [c] = Inl e))"
proof -
  have "\<exists>e. NewDepset ops OrderTopological ds [c] = Inl e"
    if "\<not> isEmpty c" "order c = OrderPostorder \<or> order c = OrderPreorder"
    using that NewDepset_bad_fails [of c "[c]" OrderTopological ops ds]
    by (auto simp: IsCompatible_def)
  then show ?thesis
    using NewDepset_ok_compat [of ops ord ds ts d] NewDepset_bad_fails [of _ ts ord ops ds]
      NewDepset_first_bad [of ops ds et ord pre et1 c post]
    by (auto simp: IsCompatible_def)
qed

theorem NewDepset_order_compatibility_witness:
  "NewDepset sval_ops OrderPostorder [SInt 2, SInt 3] [depsetA] = Inr depsetB
   \<and> \<not> isEmpty depsetA \<and> IsCompatible OrderPostorder (order depsetA)
   \<and> checkDirect sval_ops [] [SInt 0] = Inr ''int''
   \<and> checkTransitive OrderTopological ''int'' [depsetA] = Inr ''int''
   \<and> \<not> isEmpty depsetB \<and> order depsetB = OrderPostorder
   \<and> \<not> IsCompatible OrderTopological (order depsetB)
   \<and> NewDepset sval_ops OrderTopological [SInt 0] ([depsetA] @ depsetB # [])
       = Inl (OrderIncompatible OrderTopological OrderPostorder)
   \<and> (\<exists>e. NewDepset sval_ops OrderTopological [SInt 0] [depsetB] = Inl e)"
proof -
  have ok: "NewDepset sval_ops OrderPostorder [SInt 2, SInt 3] [depsetA] = Inr depsetB"
    by (rule NewDepset_depsetB)
  have ne: "\<not> isEmpty depsetA" "\<not> isEmpty depsetB" "order depsetB = OrderPostorder"
    by (simp_all add: depsetA_def depsetB_def)
  have cd: "checkDirect sval_ops [] [SInt 0] = Inr ''int''"
    by (simp add: checkAndSetType_def sval_ops_def)
  have ct: "checkTransitive OrderTopological ''int'' [depsetA] = Inr ''int''"
    by (simp add: depsetA_def IsCompatible_def)
  have bad: "\<not> IsCompatible OrderTopological (order depsetB)"
    by (simp add: depsetB_def IsCompatible_def)
  from NewDepset_order_compatibility
         [of OrderPostorder OrderDefault sval_ops OrderPostorder "[SInt 2, SInt 3]" "[depsetA]"
             depsetB]
    ok ne
  have c1: "IsCompatible OrderPostorder (order depsetA)" by simp
  from NewDepset_order_compatibility
         [of OrderTopological OrderPostorder sval_ops OrderTopological "[SInt 0]" "[depsetB]" _
             "''int''" "[depsetA]" "''int''" depsetB "[]"]
    cd ct ne bad
  have c2: "NewDepset sval_ops OrderTopological [SInt 0] ([depsetA] @ depsetB # [])
              = Inl (OrderIncompatible OrderTopological OrderPostorder)"
    and c3: "\<exists>e. NewDepset sval_ops OrderTopological [SInt 0] [depsetB] = Inl e"
    by simp_all
  from ok ne cd ct bad c1 c2 c3 show ?thesis by simp
qed

section \<open>Properties of providers\<close>

lemma collectKwargs_dom:
  "collectKwargs n F kw vals = Inr vals' \<Longrightarrow> F \<noteq> [] \<Longrightarrow> dom vals \<subseteq> set F \<Longrightarrow> dom vals' \<subseteq> set F"
  by (induction n F kw vals rule: collectKwargs.induct) (auto split: if_splits)


lemma collectKwargs_first_bad:
  "F \<noteq> [] \<Longrightarrow> find (\<lambda>kv. fst kv \<notin> set F) kw = Some kv \<Longrightarrow>
   collectKwargs n F kw vals = Inl (UnexpectedField n (fst kv))"
  by (induction n F kw vals rule: collectKwargs.induct) (auto split: if_splits)


lemma collectInitItems_dom:
  "collectInitItems ops p items vals = Inr vals' \<Longrightarrow> p_fields p \<noteq> [] \<Longrightarrow>
   dom vals \<subseteq> set (p_fields p) \<Longrightarrow> dom vals' \<subseteq> set (p_fields p)"
  by (induction ops p items vals rule: collectInitItems.induct)
     (auto split: if_splits simp: Let_def)

lemma Provider_CallInternal_dom:
  "p_fields p \<noteq> [] \<Longrightarrow> Provider_CallInternal ops p args kwargs = Inr inst \<Longrightarrow>
   dom (pi_values inst) \<subseteq> set (p_fields p)"
  by (auto simp: Provider_CallInternal_def split: option.splits sum.splits if_splits
      dest!: collectKwargs_dom collectInitItems_dom)

lemma raw_CallInternal_dom:
  "p_fields (raw_provider r) \<noteq> [] \<Longrightarrow> raw_CallInternal r args kwargs = Inr inst \<Longrightarrow>
   dom (pi_values inst) \<subseteq> set (p_fields (raw_provider r))"
  by (auto simp: raw_CallInternal_def NewProviderInstance_def split: sum.splits if_splits
      dest!: collectKwargs_dom)






lemma Provider_CallInternal_first_bad:
  "p_fields p \<noteq> [] \<Longrightarrow> p_init p = None \<Longrightarrow>
   find (\<lambda>kv. fst kv \<notin> set (p_fields p)) kwargs = Some kv \<Longrightarrow>
   Provider_CallInternal ops p [] kwargs = Inl (UnexpectedField (p_name p) (fst kv))"
  by (simp add: Provider_CallInternal_def collectKwargs_first_bad)

lemma raw_CallInternal_first_bad:
  "p_fields (raw_provider r) \<noteq> [] \<Longrightarrow>
   find (\<lambda>kv. fst kv \<notin> set (p_fields (raw_provider r))) kwargs = Some kv \<Longrightarrow>
   raw_CallInternal r [] kwargs = Inl (UnexpectedField (p_name (raw_provider r)) (fst kv))"
  by (simp add: raw_CallInternal_def collectKwargs_first_bad)



lemma MyInfo_accepts:
  "Provider_CallInternal sval_ops MyInfo [] [(''x'', SInt 1), (''y'', SInt 2)] =
     Inr \<lparr> pi_provider = MyInfo, pi_values = [''x'' \<mapsto> SInt 1, ''y'' \<mapsto> SInt 2],
           pi_frozen = False \<rparr>"
  by (simp add: Provider_CallInternal_def MyInfo_def NewProvider_def)

lemma MyInfo_rejects:
  "Provider_CallInternal sval_ops MyInfo [] [(''z'', SInt 3)] = Inl (UnexpectedField [] ''z'')"
  by (simp add: Provider_CallInternal_def MyInfo_def NewProvider_def)

text \<open>
  Claim C5, where it fails as stated.  \<open>provider(fields=[])\<close> declares the empty field
  list; the call with the keyword \<open>z\<close> succeeds and the instance carries \<open>z\<close>, a name
  outside the declared list.  With an init callback the keyword \<open>z\<close> goes to the
  callback, whose returned dict is what is validated, so the call succeeds.  With a
  positional argument and no callback the call fails with the positional-argument error.
\<close>

theorem provider_fields_counterexample:
  "builtins_Provider sval_ops SNone (SList []) SNone = Inr (ProviderVal NoFields)
   \<and> p_fields NoFields = []
   \<and> Provider_CallInternal sval_ops NoFields [] [(''z'', SInt 3)] =
       Inr \<lparr> pi_provider = NoFields, pi_values = [''z'' \<mapsto> SInt 3], pi_frozen = False \<rparr>
   \<and> Provider_CallInternal sval_ops MyInfoInit [] [(''z'', SInt 3)] =
       Inr \<lparr> pi_provider = MyInfoInit, pi_values = [''x'' \<mapsto> SInt 1], pi_frozen = False \<rparr>
   \<and> Provider_CallInternal sval_ops MyInfo [SInt 0] [(''z'', SInt 3)] =
       Inl (UnexpectedPositional [])"
  by (simp add: builtins_Provider_def Provider_CallInternal_def NoFields_def MyInfo_def
      MyInfoInit_def initFixed_def NewProvider_def sval_ops_def)

text \<open>
  Claim C5, as amended.  For every provider with a non-empty declared field list \<open>F\<close>:
  every instance constructed by the provider (with or without init callback) or by its
  raw constructor carries only field names in \<open>F\<close>; and a keyword-only call of a provider
  without init callback, or of a raw constructor, that has a keyword outside \<open>F\<close> fails
  with the unexpected-field error naming the first such keyword.  For
  \<open>MyInfo = provider(fields=["x","y"])\<close>, \<open>MyInfo(x=1, y=2)\<close> is accepted and
  \<open>MyInfo(z=3)\<close> is rejected with the unexpected-field error for \<open>z\<close>.
\<close>

theorem provider_instance_fields_declared:
  "(p_fields p \<noteq> [] \<and> Provider_CallInternal ops p args kwargs = Inr inst \<longrightarrow>
      dom (pi_values inst) \<subseteq> set (p_fields p))
   \<and> (p_fields (raw_provider r) \<noteq> [] \<and> raw_CallInternal r args kwargs = Inr inst \<longrightarrow>
      dom (pi_values inst) \<subseteq> set (p_fields (raw_provider r)))
   \<and> (p_fields p \<noteq> [] \<and> p_init p = None \<and>
      find (\<lambda>kv. fst kv \<notin> set (p_fields p)) kwargs = Some kv \<longrightarrow>
      Provider_CallInternal ops p [] kwargs = Inl (UnexpectedField (p_name p) (fst kv)))
   \<and> (p_fields (raw_provider r) \<noteq> [] \<and>
      find (\<lambda>kv. fst kv \<notin> set (p_fields (raw_provider r))) kwargs = Some kv \<longrightarrow>
      raw_CallInternal r [] kwargs = Inl (UnexpectedField (p_name (raw_provider r)) (fst kv)))
   \<and> Provider_CallInternal sval_ops MyInfo [] [(''x'', SInt 1), (''y'', SInt 2)] =
       Inr \<lparr> pi_provider = MyInfo, pi_values = [''x'' \<mapsto> SInt 1, ''y'' \<mapsto> SInt 2],
             pi_frozen = False \<rparr>
   \<and> Provider_CallInternal sval_ops MyInfo [] [(''z'', SInt 3)] = Inl (UnexpectedField [] ''z'')"
  using Provider_CallInternal_dom [of p ops args kwargs inst]
    raw_CallInternal_dom [of r args kwargs inst]
    Provider_CallInternal_first_bad [of p kwargs kv ops]
    raw_CallInternal_first_bad [of r kwargs kv]
    MyInfo_accepts MyInfo_rejects
  by blast

theorem provider_instance_fields_declared_witness:
  "p_fields MyInfo \<noteq> [] \<and> p_init MyInfo = None
   \<and> Provider_CallInternal sval_ops MyInfo [] [(''x'', SInt 1), (''y'', SInt 2)] =
       Inr \<lparr> pi_provider = MyInfo, pi_values = [''x'' \<mapsto> SInt 1, ''y'' \<mapsto> SInt 2],
             pi_frozen = False \<rparr>
   \<and> dom [''x'' \<mapsto> SInt 1, ''y'' \<mapsto> SInt 2] \<subseteq> set (p_fields MyInfo)
   \<and> find (\<lambda>kv. fst kv \<notin> set (p_fields MyInfo)) [(''x'', SInt 1), (''z'', SInt 3)] =
       Some (''z'', SInt 3)
   \<and> Provider_CallInternal sval_ops MyInfo [] [(''x'', SInt 1), (''z'', SInt 3)] =
       Inl (UnexpectedField (p_name MyInfo) ''z'')
   \<and> raw_CallInternal \<lparr> raw_provider = MyInfo \<rparr> [] [(''x'', SInt 1), (''z'', SInt 3)] =
       Inl (UnexpectedField (p_name MyInfo) ''z'')
   \<and> raw_CallInternal \<lparr> raw_provider = MyInfo \<rparr> [] [(''x'', SInt 1)] =
       Inr (NewProviderInstance MyInfo [''x'' \<mapsto> SInt 1])"
proof -
  have f: "p_fields MyInfo \<noteq> []" "p_init MyInfo = None"
    by (simp_all add: MyInfo_def NewProvider_def)
  have fi: "find (\<lambda>kv. fst kv \<notin> set (p_fields MyInfo)) [(''x'', SInt 1), (''z'', SInt 3)] =
      Some (''z'', SInt 3)"
    by (simp add: MyInfo_def NewProvider_def)
  have rw: "raw_CallInternal \<lparr> raw_provider = MyInfo \<rparr> [] [(''x'', SInt 1)] =
      Inr (NewProviderInstance MyInfo [''x'' \<mapsto> SInt 1])"
    by (simp add: raw_CallInternal_def MyInfo_def NewProvider_def)
  from provider_instance_fields_declared
         [of MyInfo sval_ops "[]" "[(''x'', SInt 1), (''z'', SInt 3)]" _
             "\<lparr> raw_provider = MyInfo \<rparr>" "(''z'', SInt 3)"]
    f fi
  have a: "Provider_CallInternal sval_ops MyInfo [] [(''x'', SInt 1), (''z'', SInt 3)] =
       Inl (UnexpectedField (p_name MyInfo) ''z'')"
    and b: "raw_CallInternal \<lparr> raw_provider = MyInfo \<rparr> [] [(''x'', SInt 1), (''z'', SInt 3)] =
       Inl (UnexpectedField (p_name MyInfo) ''z'')"
    by simp_all
  from provider_instance_fields_declared
         [of MyInfo sval_ops "[]" "[(''x'', SInt 1), (''y'', SInt 2)]"
             "\<lparr> pi_provider = MyInfo, pi_values = [''x'' \<mapsto> SInt 1, ''y'' \<mapsto> SInt 2],
               pi_frozen = False \<rparr>"]
    f
  have c: "Provider_CallInternal sval_ops MyInfo [] [(''x'', SInt 1), (''y'', SInt 2)] =
       Inr \<lparr> pi_provider = MyInfo, pi_values = [''x'' \<mapsto> SInt 1, ''y'' \<mapsto> SInt 2],
             pi_frozen = False \<rparr>"
    and d: "dom [''x'' \<mapsto> SInt 1, ''y'' \<mapsto> SInt 2] \<subseteq> set (p_fields MyInfo)"
    by simp_all
  from f fi rw a b c d show ?thesis by simp
qed



text \<open>
  Claim C9, evaluated on the code.  With an init callback, \<^verbatim>\<open>builtins.Provider\<close>
  returns the pair of the provider and its raw constructor, while the evaluator's own
  \<^verbatim>\<open>providerBuiltin\<close> returns the provider alone on the same arguments.
\<close>

theorem providerBuiltin_init_returns_no_pair:
  "providerBuiltin sval_ops [] (Some [SStr ''x'', SStr ''y'']) (Some initFixed) =
     Inr (ProviderVal MyInfoInit)
   \<and> builtins_Provider sval_ops SNone (SList [SStr ''x'', SStr ''y''])
         (SConstFn (SDict [(SStr ''x'', SInt 1)])) =
     Inr (ProviderPair MyInfoInit \<lparr> raw_provider = MyInfoInit \<rparr>)"
proof -
  have "(\<lambda>args kwargs. Inr (SDict [(SStr ''x'', SInt 1)])) = initFixed"
    by (intro ext) (simp add: initFixed_def)
  then show ?thesis
    by (simp add: providerBuiltin_def builtins_Provider_def MyInfoInit_def NewProvider_def
        sval_ops_def Let_def)
qed

section \<open>Properties of label parsing\<close>

lemma Index_HasPrefix: "Index s sep = Some i \<Longrightarrow> HasPrefix (drop i s) sep"
  by (induction s arbitrary: i) (auto simp: HasPrefix_def split: if_splits)

lemma ParseLabel_fails_iff:
  "(\<exists>e. ParseLabel s = Inl e) \<longleftrightarrow>
     (if HasPrefix s ''@'' then Index s ''//'' = None else \<not> HasPrefix s ''//'')"
  by (auto simp: ParseLabel_def Let_def split: option.splits if_splits dest: Index_HasPrefix)

lemma ParseLabelRelative_fails_iff:
  "(\<exists>e. ParseLabelRelative s r p = Inl e) \<longleftrightarrow> (HasPrefix s ''@'' \<and> Index s ''//'' = None)"
  using ParseLabel_fails_iff [of s]
  by (auto simp: ParseLabelRelative_def split: sum.splits if_splits)

text \<open>
  Claim C6, where it fails as stated.  \<open>//pkg:\<close> has an empty target name and
  \<open>//a/../b:c\<close> has a \<open>..\<close> segment in its package path; both parse, and so does the
  package-relative \<open>:\<close> with its empty name.
\<close>

theorem ParseLabel_no_validation_counterexample:
  "ParseLabel ''//pkg:'' =
     Inr \<lparr> l_repo = [], l_pkg = ''pkg'', l_name = [], l_frozen = False \<rparr>
   \<and> ParseLabel ''//a/../b:c'' =
     Inr \<lparr> l_repo = [], l_pkg = ''a/../b'', l_name = ''c'', l_frozen = False \<rparr>
   \<and> ''..'' \<in> set (splitSlash ''a/../b'')
   \<and> ParseLabelRelative '':'' ''r'' ''p'' =
     Inr \<lparr> l_repo = ''r'', l_pkg = ''p'', l_name = [], l_frozen = False \<rparr>"
  by (simp add: ParseLabel_def ParseLabelRelative_def HasPrefix_def)

text \<open>
  Claim C6, as amended.  \<^verbatim>\<open>ParseLabel\<close> fails exactly when the string starts with
  \<open>@\<close> and contains no \<open>//\<close>, or starts with neither \<open>@\<close> nor \<open>//\<close>;
  \<^verbatim>\<open>ParseLabelRelative\<close> fails exactly when the string starts with \<open>@\<close> and contains no
  \<open>//\<close>.  Neither function inspects the target name or the path segments.
\<close>

theorem ParseLabel_failure_conditions:
  "((\<exists>e. ParseLabel s = Inl e) \<longleftrightarrow>
      (if HasPrefix s ''@'' then Index s ''//'' = None else \<not> HasPrefix s ''//''))
   \<and> ((\<exists>e. ParseLabelRelative s r p = Inl e) \<longleftrightarrow> (HasPrefix s ''@'' \<and> Index s ''//'' = None))"
  using ParseLabel_fails_iff [of s] ParseLabelRelative_fails_iff [of s r p] by blast

theorem ParseLabel_failure_conditions_witness:
  "HasPrefix ''@repo/pkg'' ''@'' \<and> Index ''@repo/pkg'' ''//'' = None
   \<and> (\<exists>e. ParseLabel ''@repo/pkg'' = Inl e)
   \<and> (\<exists>e. ParseLabelRelative ''@repo/pkg'' ''r'' ''p'' = Inl e)
   \<and> \<not> HasPrefix ''//pkg:t'' ''@'' \<and> HasPrefix ''//pkg:t'' ''//''
   \<and> \<not> (\<exists>e. ParseLabel ''//pkg:t'' = Inl e)
   \<and> \<not> (\<exists>e. ParseLabelRelative ''//pkg:t'' ''r'' ''p'' = Inl e)"
proof -
  have a: "HasPrefix ''@repo/pkg'' ''@''" "Index ''@repo/pkg'' ''//'' = None"
    "\<not> HasPrefix ''//pkg:t'' ''@''" "HasPrefix ''//pkg:t'' ''//''"
    by (simp_all add: HasPrefix_def)
  from ParseLabel_failure_conditions [of "''@repo/pkg''" "''r''" "''p''"] a
  have b: "\<exists>e. ParseLabel ''@repo/pkg'' = Inl e"
    "\<exists>e. ParseLabelRelative ''@repo/pkg'' ''r'' ''p'' = Inl e"
    by simp_all
  from ParseLabel_failure_conditions [of "''//pkg:t''" "''r''" "''p''"] a
  have c: "\<not> (\<exists>e. ParseLabel ''//pkg:t'' = Inl e)"
    "\<not> (\<exists>e. ParseLabelRelative ''//pkg:t'' ''r'' ''p'' = Inl e)"
    by simp_all
  from a b c show ?thesis by simp
qed

section \<open>Properties of the loader\<close>

lemma Load_cycle:
  "resolveModule l th module = Inr (label, path) \<Longrightarrow> label \<in> set (getLoadStack th) \<Longrightarrow>
   Load n l th module = Some (Inl (CycleError module (getLoadStack th @ [label])), l)"
  by (cases n) (simp_all add: Load_body_def)

lemma resolve_in_b: "resolveModule l inBThread ''//:a.bzl'' = Inr (''//:a.bzl'', fs_Join l [repoRoot l, [], ''a.bzl''])"
  by (simp add: resolveModule_def inBThread_def GetCurrentPackage_def GetCurrentRepo_def
      HasPrefix_def HasSuffix_def splitPkgTarget_def)

text \<open>
  Claim C3.  Whenever the module string resolves to a canonical label that is an element
  of the calling thread's load stack, \<^verbatim>\<open>Load\<close> returns (at every depth bound, so the
  call itself always returns) the \<open>CycleError\<close> whose stack is the current stack with the
  repeated label appended, and whose message lists that stack in order.  The loader that
  comes back is the loader that went in: the cache is neither read nor written, whatever
  entry it holds for the label.
\<close>

theorem Load_cycle_detected_before_cache:
  "resolveModule l th module = Inr (label, path) \<and> label \<in> set (getLoadStack th) \<longrightarrow>
     Load n l th module = Some (Inl (CycleError module (getLoadStack th @ [label])), l)
     \<and> CycleError_Error (getLoadStack th @ [label]) =
         ''Starlark load cycle: ['' @ joinWith '' '' (getLoadStack th @ [label]) @ '']''"
  using Load_cycle [of l th module label path n] by (simp add: CycleError_Error_def)

theorem Load_cycle_detected_before_cache_witness:
  "resolveModule (cycleLoader\<lparr> cache := [''//:a.bzl'' \<mapsto>
        \<lparr> e_globals = Some (), e_err = None, e_ready = True \<rparr>] \<rparr>) inBThread ''//:a.bzl''
     = Inr (''//:a.bzl'', ''a.bzl'')
   \<and> ''//:a.bzl'' \<in> set (getLoadStack inBThread)
   \<and> Load 0 (cycleLoader\<lparr> cache := [''//:a.bzl'' \<mapsto>
        \<lparr> e_globals = Some (), e_err = None, e_ready = True \<rparr>] \<rparr>) inBThread ''//:a.bzl''
     = Some (Inl (CycleError ''//:a.bzl'' [''//:a.bzl'', ''//:b.bzl'', ''//:a.bzl'']),
             cycleLoader\<lparr> cache := [''//:a.bzl'' \<mapsto>
               \<lparr> e_globals = Some (), e_err = None, e_ready = True \<rparr>] \<rparr>)
   \<and> CycleError_Error [''//:a.bzl'', ''//:b.bzl'', ''//:a.bzl''] =
       ''Starlark load cycle: [//:a.bzl //:b.bzl //:a.bzl]''"
proof -
  let ?l = "cycleLoader\<lparr> cache := [''//:a.bzl'' \<mapsto>
        \<lparr> e_globals = Some (), e_err = None, e_ready = True \<rparr>] \<rparr>"
  have r: "resolveModule ?l inBThread ''//:a.bzl'' = Inr (''//:a.bzl'', ''a.bzl'')"
    by (simp add: resolve_in_b cycleLoader_def)
  have s: "getLoadStack inBThread = [''//:a.bzl'', ''//:b.bzl'']"
    by (simp add: getLoadStack_def inBThread_def)
  from Load_cycle_detected_before_cache [of ?l inBThread "''//:a.bzl''" "''//:a.bzl''" "''a.bzl''" 0] r s
  show ?thesis by simp
qed

text \<open>
  The specification's scenario: evaluating \<open>load("//:a.bzl")\<close> where \<open>a.bzl\<close> and \<open>b.bzl\<close>
  load each other fails, and the innermost error is the \<open>CycleError\<close> listing both
  canonical labels.
\<close>

lemma load_cycle_scenario:
  "map_option fst (Load (Suc (Suc 0)) cycleLoader topThread ''//:a.bzl'') =
     Some (Inl (ExecFailed ''//:a.bzl'' (HostLoadFailed ''//:b.bzl'' (ExecFailed ''//:b.bzl''
       (HostLoadFailed ''//:a.bzl''
         (CycleError ''//:a.bzl'' [''//:a.bzl'', ''//:b.bzl'', ''//:a.bzl'']))))))"
  by (simp add: Load_body_def loadFile_def resolveModule_def cycleLoader_def cycleFS_def
      topThread_def GetCurrentPackage_def GetCurrentRepo_def getLoadStack_def HasPrefix_def
      HasSuffix_def splitPkgTarget_def Let_def)

section \<open>Properties of target registration\<close>

lemma AddTarget_duplicate:
  "pkg_Targets p name \<noteq> None \<Longrightarrow>
   AddTarget p name target = (Some (DuplicateInPackage name (pkg_Name p)), p)"
  by (simp add: AddTarget_def)

lemma RegisterTarget_duplicate:
  "registry th (ri_name target) \<noteq> None \<Longrightarrow>
   \<exists>e. RegisterTarget th target = (Some e, th) \<and> isDuplicateError e"
  by (auto simp: RegisterTarget_def registry_def AddTarget_def Let_def split: option.splits)

lemma RegisterTarget_error_unchanged:
  "RegisterTarget th target = (Some e, th') \<Longrightarrow> th' = th"
  by (auto simp: RegisterTarget_def AddTarget_def Let_def split: option.splits if_splits)

lemma RegisterTarget_ok_registry:
  "RegisterTarget th target = (None, th') \<Longrightarrow>
   registry th (ri_name target) = None \<and> registry th' = (registry th)(ri_name target \<mapsto> target)"
  by (auto simp: RegisterTarget_def registry_def AddTarget_def Let_def
      split: option.splits if_splits)

lemma keyed_by_name_update:
  "keyed_by_name m \<Longrightarrow> keyed_by_name (m(ri_name t \<mapsto> t))"
  by (simp add: keyed_by_name_def)

lemma registerAll_keyed:
  "keyed_by_name (registry th) \<Longrightarrow> registerAll th ts = (r, th') \<Longrightarrow>
   keyed_by_name (registry th')"
proof (induction ts arbitrary: th)
  case Nil
  then show ?case by simp
next
  case (Cons t ts)
  obtain e th1 where reg: "RegisterTarget th t = (e, th1)" by (cases "RegisterTarget th t")
  show ?case
  proof (cases e)
    case None
    with reg have "registry th1 = (registry th)(ri_name t \<mapsto> t)"
      using RegisterTarget_ok_registry by blast
    with Cons.prems(1) have "keyed_by_name (registry th1)"
      by (simp add: keyed_by_name_update)
    moreover from Cons.prems(2) reg None have "registerAll th1 ts = (r, th')" by simp
    ultimately show ?thesis by (rule Cons.IH)
  next
    case (Some err)
    with reg have "th1 = th" using RegisterTarget_error_unchanged by blast
    with Cons.prems reg Some show ?thesis by simp
  qed
qed

lemma keyed_distinct_names:
  "keyed_by_name m \<Longrightarrow> m n1 = Some t1 \<Longrightarrow> m n2 = Some t2 \<Longrightarrow> n1 \<noteq> n2 \<Longrightarrow>
   ri_name t1 \<noteq> ri_name t2"
  by (auto simp: keyed_by_name_def)

text \<open>
  Claim C4.  \<^verbatim>\<open>AddTarget\<close> on a name the package already holds returns the
  duplicate-target error and the package as it was; \<^verbatim>\<open>RegisterTarget\<close> on a target whose
  name is already registered (in the package, or in the plain map when the thread has no
  package) returns a duplicate-target error and leaves the thread as it was.  Hence after
  any sequence of registrations that starts from an empty registry, two targets stored
  under different keys have different names, each being stored under its own name.
\<close>

theorem duplicate_target_rejected_names_distinct:
  "(pkg_Targets p name \<noteq> None \<longrightarrow>
      AddTarget p name target = (Some (DuplicateInPackage name (pkg_Name p)), p))
   \<and> (registry th (ri_name target) \<noteq> None \<longrightarrow>
      (\<exists>e. RegisterTarget th target = (Some e, th) \<and> isDuplicateError e))
   \<and> (registry th = Map.empty \<and> registerAll th ts = (r, th') \<and>
      registry th' n1 = Some t1 \<and> registry th' n2 = Some t2 \<and> n1 \<noteq> n2 \<longrightarrow>
      ri_name t1 = n1 \<and> ri_name t2 = n2 \<and> ri_name t1 \<noteq> ri_name t2)"
proof -
  have "ri_name t1 = n1 \<and> ri_name t2 = n2 \<and> ri_name t1 \<noteq> ri_name t2"
    if a: "registry th = Map.empty" "registerAll th ts = (r, th')"
      "registry th' n1 = Some t1" "registry th' n2 = Some t2" "n1 \<noteq> n2"
  proof -
    from a(1) have "keyed_by_name (registry th)" by (simp add: keyed_by_name_def)
    from registerAll_keyed [OF this a(2)] have "keyed_by_name (registry th')" .
    with a(3,4,5) show ?thesis by (auto simp: keyed_by_name_def)
  qed
  then show ?thesis
    using AddTarget_duplicate [of p name target] RegisterTarget_duplicate [of th target]
    by blast
qed

lemma registerAll_sample:
  "registerAll evalBuildThread [sampleTarget ''a'', sampleTarget ''b'', sampleTarget ''a''] =
     (Some (DuplicateTarget ''a''),
      \<lparr> bt_package = None,
        bt_targets = Some [''a'' \<mapsto> sampleTarget ''a'', ''b'' \<mapsto> sampleTarget ''b''] \<rparr>)"
  by (simp add: evalBuildThread_def RegisterTarget_def sampleTarget_def Let_def)

theorem duplicate_target_rejected_names_distinct_witness:
  "pkg_Targets \<lparr> pkg_Name = ''pkg'', pkg_Root = [], pkg_BuildFile = [],
                  pkg_Targets = [''a'' \<mapsto> sampleTarget ''a''] \<rparr> ''a'' \<noteq> None
   \<and> AddTarget \<lparr> pkg_Name = ''pkg'', pkg_Root = [], pkg_BuildFile = [],
                  pkg_Targets = [''a'' \<mapsto> sampleTarget ''a''] \<rparr> ''a'' (sampleTarget ''a'') =
       (Some (DuplicateInPackage ''a'' ''pkg''),
        \<lparr> pkg_Name = ''pkg'', pkg_Root = [], pkg_BuildFile = [],
          pkg_Targets = [''a'' \<mapsto> sampleTarget ''a''] \<rparr>)
   \<and> registry (evalBuildThread :: sval build_thread) = Map.empty
   \<and> registerAll evalBuildThread [sampleTarget ''a'', sampleTarget ''b'', sampleTarget ''a''] =
       (Some (DuplicateTarget ''a''),
        \<lparr> bt_package = None,
          bt_targets = Some [''a'' \<mapsto> sampleTarget ''a'', ''b'' \<mapsto> sampleTarget ''b''] \<rparr>)
   \<and> ri_name (sampleTarget ''a'') \<noteq> ri_name (sampleTarget ''b'')
   \<and> (\<exists>e. RegisterTarget \<lparr> bt_package = None,
          bt_targets = Some [''a'' \<mapsto> sampleTarget ''a'', ''b'' \<mapsto> sampleTarget ''b''] \<rparr>
          (sampleTarget ''b'') =
        (Some e, \<lparr> bt_package = None,
          bt_targets = Some [''a'' \<mapsto> sampleTarget ''a'', ''b'' \<mapsto> sampleTarget ''b''] \<rparr>)
        \<and> isDuplicateError e)"
proof -
  let ?p = "\<lparr> pkg_Name = ''pkg'', pkg_Root = [], pkg_BuildFile = [],
              pkg_Targets = [''a'' \<mapsto> sampleTarget ''a''] \<rparr>"
  let ?th = "\<lparr> bt_package = None,
          bt_targets = Some [''a'' \<mapsto> sampleTarget ''a'', ''b'' \<mapsto> sampleTarget ''b''] \<rparr>"
  have h1: "pkg_Targets ?p ''a'' \<noteq> None" by simp
  have h2: "registry (evalBuildThread :: sval build_thread) = Map.empty"
    by (simp add: registry_def evalBuildThread_def)
  have h3: "registry ?th ''a'' = Some (sampleTarget ''a'')"
    "registry ?th ''b'' = Some (sampleTarget ''b'')" "''a'' \<noteq> ''b''"
    "registry ?th (ri_name (sampleTarget ''b'')) \<noteq> None"
    by (simp_all add: registry_def sampleTarget_def)
  note t = duplicate_target_rejected_names_distinct
      [where p = ?p and name = "''a''" and target = "sampleTarget ''b''"
         and th = ?th]
  note u = duplicate_target_rejected_names_distinct
      [where p = ?p and name = "''a''" and target = "sampleTarget ''a''"
         and th = "evalBuildThread"
         and ts = "[sampleTarget ''a'', sampleTarget ''b'', sampleTarget ''a'']"
         and r = "Some (DuplicateTarget ''a'')" and th' = ?th
         and ?n1.0 = "''a''" and ?n2.0 = "''b''" and ?t1.0 = "sampleTarget ''a''"
         and ?t2.0 = "sampleTarget ''b''"]
  from u h1 h2 h3 registerAll_sample
  have a: "AddTarget ?p ''a'' (sampleTarget ''a'') = (Some (DuplicateInPackage ''a'' ''pkg''), ?p)"
    and b: "ri_name (sampleTarget ''a'') \<noteq> ri_name (sampleTarget ''b'')"
    by simp_all
  from t h3 have c: "\<exists>e. RegisterTarget ?th (sampleTarget ''b'') = (Some e, ?th) \<and> isDuplicateError e"
    by blast
  from h1 h2 a b c registerAll_sample show ?thesis by simp
qed

section \<open>Properties of the export protocol\<close>

text \<open>
  Claim C1, evaluated on the code.  \<^verbatim>\<open>EvalBzl\<close> returns the globals as the host bound
  them: the rule class assigned to \<open>my_rule\<close> is still unnamed and unexported, and calling
  it fails with the not-exported error.  The same call succeeds once \<^verbatim>\<open>SetName\<close> has
  been applied, which sets the name and the exported flag and leaves the frozen flag.
\<close>

theorem EvalBzl_leaves_rule_unexported:
  "EvalBzl sval_ops ''rules.bzl'' [AssignRule ''my_rule'' [''srcs''] False False] =
     Inr \<lparr> Globals = [''my_rule'' \<mapsto> GRule my_rule] \<rparr>
   \<and> rc_name my_rule = [] \<and> IsExported my_rule = False
   \<and> RuleClass_CallInternal sval_ops my_rule [] [(''name'', SStr ''t'')] = Inl NotExported
   \<and> rc_name (SetName my_rule ''my_rule'') = ''my_rule''
   \<and> IsExported (SetName my_rule ''my_rule'') = True
   \<and> rc_frozen (SetName my_rule ''my_rule'') = False
   \<and> map_sum id ri_name
        (RuleClass_CallInternal sval_ops (SetName my_rule ''my_rule'') []
           [(''name'', SStr ''t'')]) = Inr ''t''"
  by (simp add: EvalBzl_def my_rule_def RuleBuiltin_def NewRuleClass_def
      addImplicitAttributes_def addAttr_def attrMapOf_def IsExported_def SetName_def
      RuleClass_CallInternal_def validateAttrValue_def sval_ops_def Let_def)

section \<open>Properties of \<open>glob\<close>\<close>




























end
